theory Spec2Isabelle
  imports Main "HOL-Library.AList" "HOL-Library.Word"
begin

section \<open>The signaling gate (peer-queue.ts)\<close>

text \<open>
  The class \<open>PeerQueue\<close> is a record of its private fields. A queued callback is opaque:
  it is named by a number, and running it appends that number to the trace \<open>executed\<close>
  (the callbacks of the repository create a signaling endpoint and attach listeners; they
  do not call back into the queue in the same tick). \<open>Date.now()\<close> is the parameter
  \<open>now\<close>, in milliseconds; a pending \<open>setTimeout\<close> is the time at which it is due.
  JavaScript numbers are modelled by \<open>int\<close>, and the throttle counter, which only ever
  moves by \<open>++\<close> and by \<open>Math.max(0, c - 1)\<close> from 0, by \<open>nat\<close>.
\<close>

datatype priority = High | Normal

record QueueEntry =
  fn :: nat
  priority :: priority

definition BASE_INTERVAL :: int where "BASE_INTERVAL = 1500"
definition THROTTLE_MULTIPLIER :: int where "THROTTLE_MULTIPLIER = 3"
definition MAX_INTERVAL :: int where "MAX_INTERVAL = 15000"
definition THROTTLE_DECAY :: int where "THROTTLE_DECAY = 60000"
definition PROBE_COOLDOWN :: int where "PROBE_COOLDOWN = 10000"

record PeerQueue =
  queue :: "QueueEntry list"
  lastCreate :: int
  timer :: "int option"
  throttleCount :: nat
  lastThrottleTs :: int
  lastProbeTs :: int
  lastProbeResult :: "bool option"
  totalCreated :: nat
  networkDown :: bool
  executed :: "nat list"

text \<open>The state of a fresh \<open>new PeerQueue()\<close>.\<close>

definition newPeerQueue :: PeerQueue where
  "newPeerQueue = \<lparr> queue = [], lastCreate = 0, timer = None, throttleCount = 0,
     lastThrottleTs = 0, lastProbeTs = 0, lastProbeResult = None, totalCreated = 0,
     networkDown = False, executed = [] \<rparr>"

text \<open>
  The getter \<open>currentInterval\<close> has a side effect: it decays the throttle counter
  when the last throttle event is older than \<open>THROTTLE_DECAY\<close>. It returns the interval
  and the queue after that effect.
\<close>

definition currentInterval :: "int \<Rightarrow> PeerQueue \<Rightarrow> int \<times> PeerQueue" where
  "currentInterval now q =
     (let q1 = (if throttleCount q > 0 \<and> now - lastThrottleTs q > THROTTLE_DECAY
                then q\<lparr>throttleCount := throttleCount q - 1\<rparr> else q)
      in if throttleCount q1 = 0 then (BASE_INTERVAL, q1)
         else (min (BASE_INTERVAL * THROTTLE_MULTIPLIER ^ (min (throttleCount q1) 4)) MAX_INTERVAL, q1))"

text \<open>
  \<open>emitState\<close> reads the getter \<open>state\<close>, which reads \<open>currentInterval\<close>: what
  it leaves behind in the queue is that getter's decay. The listeners receive a snapshot
  and are outside this model.
\<close>

definition emitState :: "int \<Rightarrow> PeerQueue \<Rightarrow> PeerQueue" where
  "emitState now q = snd (currentInterval now q)"

definition flush :: "int \<Rightarrow> PeerQueue \<Rightarrow> PeerQueue" where
  "flush now q =
     (if queue q = [] then q
      else if networkDown q then q
      else (let (interval, q1) = currentInterval now q;
                elapsed = now - lastCreate q1
            in if elapsed < interval
               then (if timer q1 = None then q1\<lparr>timer := Some (now + (interval - elapsed))\<rparr> else q1)
               else (let entry = hd (queue q1);
                         q2 = q1\<lparr>queue := tl (queue q1), lastCreate := now,
                                 totalCreated := totalCreated q1 + 1,
                                 executed := executed q1 @ [fn entry]\<rparr>;
                         q3 = emitState now q2
                     in if queue q3 \<noteq> [] \<and> timer q3 = None
                        then (let (iv, q4) = currentInterval now q3 in q4\<lparr>timer := Some (now + iv)\<rparr>)
                        else q3)))"

text \<open>The body of the timer callback set by \<open>flush\<close>.\<close>

definition timerFired :: "int \<Rightarrow> PeerQueue \<Rightarrow> PeerQueue" where
  "timerFired now q = flush now (q\<lparr>timer := None\<rparr>)"

text \<open>
  \<open>schedule\<close>: a high-priority entry goes before the first normal entry
  (\<open>findIndex\<close>, then \<open>splice\<close>), or at the end when there is none; a normal entry goes
  at the end. Then \<open>flush\<close>.
\<close>

definition schedule :: "int \<Rightarrow> QueueEntry \<Rightarrow> PeerQueue \<Rightarrow> PeerQueue" where
  "schedule now entry q =
     flush now (q\<lparr>queue :=
        (if priority entry = High
         then takeWhile (\<lambda>e. priority e \<noteq> Normal) (queue q) @ [entry]
                @ dropWhile (\<lambda>e. priority e \<noteq> Normal) (queue q)
         else queue q @ [entry])\<rparr>)"

text \<open>
  \<open>probeNetwork\<close>: the outcome of the \<open>fetch\<close> is the parameter \<open>fetchOk\<close>
  (\<open>False\<close> when it throws or is aborted). The cached result is returned while it is
  younger than \<open>PROBE_COOLDOWN\<close>.
\<close>

definition probeNetwork :: "int \<Rightarrow> bool \<Rightarrow> PeerQueue \<Rightarrow> bool \<times> PeerQueue" where
  "probeNetwork now fetchOk q =
     (case lastProbeResult q of
        Some r \<Rightarrow>
          if now - lastProbeTs q < PROBE_COOLDOWN then (r, q)
          else (fetchOk, q\<lparr>lastProbeTs := now, lastProbeResult := Some fetchOk\<rparr>)
      | None \<Rightarrow> (fetchOk, q\<lparr>lastProbeTs := now, lastProbeResult := Some fetchOk\<rparr>))"

text \<open>
  The continuation of \<open>reportSignalingError\<close>, run with the probe's answer. In the
  throttle branch the log line reads \<open>currentInterval\<close> before \<open>emitState\<close> does.
\<close>

definition reportSignalingError_then :: "int \<Rightarrow> bool \<Rightarrow> PeerQueue \<Rightarrow> PeerQueue" where
  "reportSignalingError_then now networkUp q =
     (if networkUp
      then (let q1 = q\<lparr>networkDown := False, throttleCount := throttleCount q + 1,
                        lastThrottleTs := now\<rparr>;
                q2 = snd (currentInterval now q1)
            in emitState now q2)
      else emitState now (q\<lparr>networkDown := True, queue := [], timer := None\<rparr>))"

text \<open>
  \<open>reportSignalingError\<close>: the probe starts at \<open>now\<close> and its continuation runs at
  \<open>later\<close>, when the probe has answered.
\<close>

definition reportSignalingError :: "int \<Rightarrow> bool \<Rightarrow> int \<Rightarrow> PeerQueue \<Rightarrow> PeerQueue" where
  "reportSignalingError now fetchOk later q =
     (let (networkUp, q1) = probeNetwork now fetchOk q
      in reportSignalingError_then later networkUp q1)"

text \<open>
  \<open>reportSignalingSuccess\<close>: the flag and the counter are updated and the state is
  emitted (\<open>successState\<close>), then the queue is flushed.
\<close>

definition successState :: "int \<Rightarrow> PeerQueue \<Rightarrow> PeerQueue" where
  "successState now q =
     (let q1 = (if networkDown q then q\<lparr>networkDown := False\<rparr> else q);
          q2 = (if throttleCount q1 > 0 then q1\<lparr>throttleCount := throttleCount q1 - 1\<rparr> else q1)
      in emitState now q2)"

definition reportSignalingSuccess :: "int \<Rightarrow> PeerQueue \<Rightarrow> PeerQueue" where
  "reportSignalingSuccess now q = flush now (successState now q)"

definition cancelAll :: "PeerQueue \<Rightarrow> PeerQueue" where
  "cancelAll q = q\<lparr>queue := [], timer := None\<rparr>"

text \<open>
  What can happen to the gate: a call of its public interface, or its pending timer
  firing. A timer fires only while it is pending and not before it is due; then the
  callback runs. The subscription of listeners changes no field modelled here.
\<close>

datatype gateOp =
    Schedule int QueueEntry
  | TimerFired int
  | CancelAll
  | ReportSignalingError int bool int
  | ReportSignalingSuccess int

fun gateStep :: "gateOp \<Rightarrow> PeerQueue \<Rightarrow> PeerQueue" where
  "gateStep (Schedule now entry) q = schedule now entry q"
| "gateStep (TimerFired now) q =
     (case timer q of
        None \<Rightarrow> q
      | Some due \<Rightarrow> if due \<le> now then timerFired now q else q)"
| "gateStep CancelAll q = cancelAll q"
| "gateStep (ReportSignalingError now fetchOk later) q = reportSignalingError now fetchOk later q"
| "gateStep (ReportSignalingSuccess now) q = reportSignalingSuccess now q"

text \<open>The operations that clear the network-down flag of a gate in state \<open>q\<close>.\<close>

fun clearsNetworkDown :: "gateOp \<Rightarrow> PeerQueue \<Rightarrow> bool" where
  "clearsNetworkDown (ReportSignalingSuccess now) q = True"
| "clearsNetworkDown (ReportSignalingError now fetchOk later) q = fst (probeNetwork now fetchOk q)"
| "clearsNetworkDown op q = False"

fun gateRun :: "gateOp list \<Rightarrow> PeerQueue \<Rightarrow> PeerQueue" where
  "gateRun [] q = q"
| "gateRun (op # ops) q = gateRun ops (gateStep op q)"

text \<open>
  Example states of the gate: one entry pending behind a running timer; the gate
  network-down and empty; the gate network-down with one entry scheduled since.
\<close>

definition ex_entry7 :: QueueEntry where
  "ex_entry7 = \<lparr> fn = 7, priority = Normal \<rparr>"

definition ex_entry8 :: QueueEntry where
  "ex_entry8 = \<lparr> fn = 8, priority = Normal \<rparr>"

definition ex_pending :: PeerQueue where
  "ex_pending = newPeerQueue\<lparr>queue := [ex_entry7], lastCreate := 99000, timer := Some 100500\<rparr>"

definition ex_down :: PeerQueue where
  "ex_down = newPeerQueue\<lparr>lastCreate := 99000, networkDown := True\<rparr>"

definition ex_down_queued :: PeerQueue where
  "ex_down_queued = newPeerQueue\<lparr>queue := [ex_entry8], lastCreate := 99000, networkDown := True\<rparr>"

text \<open>A run in which no step clears the network-down flag.\<close>

fun pausedRun :: "gateOp list \<Rightarrow> PeerQueue \<Rightarrow> bool" where
  "pausedRun [] q = True"
| "pausedRun (op # ops) q = (\<not> clearsNetworkDown op q \<and> pausedRun ops (gateStep op q))"

text \<open>
  More example states: the gate network-down with entry 8 queued and a creation at time
  199000; the same gate with a cached passing probe from time 149000.
\<close>

definition ex_down_recent :: PeerQueue where
  "ex_down_recent = newPeerQueue\<lparr>queue := [ex_entry8], lastCreate := 199000, networkDown := True\<rparr>"

definition ex_down_probe_cached :: PeerQueue where
  "ex_down_probe_cached = ex_down_queued\<lparr>lastProbeTs := 149000, lastProbeResult := Some True\<rparr>"

section \<open>The public-key fingerprint (p2p.ts, computeFingerprint)\<close>

text \<open>
  Web Crypto is not code of the repository: whether \<open>window.crypto.subtle\<close> exists is the
  parameter \<open>subtle\<close>, and \<open>crypto.subtle.digest('SHA-256', bytes)\<close> is the parameter
  \<open>digest\<close>, which returns \<open>None\<close> when the call throws. A byte of a \<open>Uint8Array\<close>
  is an 8-bit word. The public key is a base64 string, so its characters are ASCII and
  \<open>TextEncoder.encode\<close> maps each to its code.
\<close>

type_synonym byte = "8 word"

definition TextEncoder_encode :: "string \<Rightarrow> byte list" where
  "TextEncoder_encode s = map (\<lambda>c. of_char c) s"

definition hexDigit :: "nat \<Rightarrow> char" where
  "hexDigit d = ''0123456789abcdef'' ! d"

text \<open>\<open>b.toString(16)\<close> for a byte: one digit below 16, two digits from 16 on.\<close>

definition toString16 :: "byte \<Rightarrow> string" where
  "toString16 b =
     (if unat b < 16 then [hexDigit (unat b)]
      else [hexDigit (unat b div 16), hexDigit (unat b mod 16)])"

definition padStart :: "nat \<Rightarrow> char \<Rightarrow> string \<Rightarrow> string" where
  "padStart n c s = replicate (n - length s) c @ s"

definition computeFingerprint :: "bool \<Rightarrow> (byte list \<Rightarrow> byte list option) \<Rightarrow> string \<Rightarrow> string" where
  "computeFingerprint subtle digest pk =
     (if \<not> subtle then ''''
      else (case digest (TextEncoder_encode pk) of
              None \<Rightarrow> ''''
            | Some hash \<Rightarrow> concat (map (\<lambda>b. padStart 2 (CHR ''0'') (toString16 b)) (take 8 hash))))"

definition isLowerHex :: "char \<Rightarrow> bool" where
  "isLowerHex c = (c \<in> set ''0123456789abcdef'')"

text \<open>
  A stand-in digest for examples: 32 bytes that depend on the input's length only. It has
  the shape of a SHA-256 output, not its values.
\<close>

definition ex_digest :: "byte list \<Rightarrow> byte list option" where
  "ex_digest bs = Some (map (\<lambda>i. of_nat (i * 37 + length bs)) [0..<32])"

definition ex_digest_throws :: "byte list \<Rightarrow> byte list option" where
  "ex_digest_throws bs = None"

section \<open>Contacts and the namespace registry (types.ts, p2p-ns.ts)\<close>

text \<open>
  An optional string field is a \<open>string option\<close>; JavaScript tests such a field for
  truthiness, which \<open>undefined\<close>, \<open>null\<close> and the empty string fail.
\<close>

definition truthy :: "string option \<Rightarrow> bool" where
  "truthy s = (case s of None \<Rightarrow> False | Some v \<Rightarrow> v \<noteq> [])"

datatype pending = Outgoing | Incoming

text \<open>
  A contact. A connection is a handle (a number). The fields \<open>pendingFingerprint\<close> and
  \<open>pendingVerified\<close> are not read or written by the functions modelled here.
\<close>

record Contact =
  c_friendlyName :: string
  c_fingerprint :: "string option"
  c_publicKey :: "string option"
  c_currentPID :: string
  c_knownPIDs :: "string list option"
  c_discoveryID :: "string option"
  c_discoveryUUID :: string
  c_sharedKeyFingerprint :: "string option"
  c_conn :: "nat option"
  c_onNetwork :: bool
  c_networkDiscID :: "string option"
  c_lastSeen :: "int option"
  c_pending :: "pending option"

record PeerInfo =
  pi_discoveryID :: string
  pi_friendlyName :: string
  pi_lastSeen :: int
  pi_isMe :: bool
  pi_conn :: "nat option"
  pi_knownPID :: "string option"
  pi_publicKey :: "string option"

text \<open>One element of the \<open>peers\<close> array of a \<open>registry\<close> broadcast (built by \<open>nsBroadcast\<close>).\<close>

record RegistryPeer =
  p_discoveryID :: string
  p_friendlyname :: string
  p_publicKey :: "string option"

text \<open>
  A JavaScript object used as a dictionary is an association list in insertion order
  (\<open>Object.keys\<close> and \<open>Object.values\<close> enumerate string keys in that order):
  assignment is \<open>AList.update\<close>, which keeps the place of an existing key and appends a
  new one, and \<open>delete\<close> is \<open>AList.delete\<close>.
\<close>

type_synonym registry = "(string \<times> PeerInfo) list"
type_synonym contacts = "(string \<times> Contact) list"

text \<open>
  The body of \<open>peers.forEach\<close> in \<open>nsMergeRegistry\<close>. \<open>extractDiscUUID\<close> (discovery.ts)
  is a parameter, \<open>myDiscID\<close> is \<open>cfg.makeDiscID(mgr.discoveryUUID)\<close> and \<open>now\<close> is
  \<open>Date.now()\<close>.
\<close>

definition mergePeer ::
  "(string \<Rightarrow> string) \<Rightarrow> string \<Rightarrow> int \<Rightarrow> registry \<times> contacts \<Rightarrow> RegistryPeer \<Rightarrow> registry \<times> contacts" where
  "mergePeer extractDiscUUID myDiscID now rc p =
     (let newRegistry = fst rc; cs = snd rc in
      if p_discoveryID p = myDiscID then (newRegistry, cs)
      else
        (let uuid = extractDiscUUID (p_discoveryID p);
             staleKey =
               (if truthy (p_publicKey p)
                then map_option fst (List.find (\<lambda>(did, r). did \<noteq> p_discoveryID p \<and> \<not> pi_isMe r \<and>
                        truthy (pi_publicKey r) \<and> pi_publicKey r = p_publicKey p) newRegistry)
                else None);
             reg1 = (case staleKey of
                       None \<Rightarrow> newRegistry
                     | Some k \<Rightarrow> if k \<noteq> [] then AList.delete k newRegistry else newRegistry);
             found = map_option fst (List.find (\<lambda>(pid, c).
                        (truthy (p_publicKey p) \<and> truthy (c_publicKey c) \<and> c_publicKey c = p_publicKey p)
                        \<or> c_discoveryUUID c = uuid) cs);
             knownPID = (case found of None \<Rightarrow> None | Some k \<Rightarrow> if k \<noteq> [] then Some k else None);
             cs1 = (case knownPID of
                      None \<Rightarrow> cs
                    | Some k \<Rightarrow>
                        AList.map_entry k (\<lambda>c. c\<lparr>c_onNetwork := True,
                            c_networkDiscID := Some (p_discoveryID p),
                            c_publicKey := (if truthy (p_publicKey p) \<and> \<not> truthy (c_publicKey c)
                                            then p_publicKey p else c_publicKey c)\<rparr>) cs);
             entry = \<lparr> pi_discoveryID = p_discoveryID p, pi_friendlyName = p_friendlyname p,
                       pi_lastSeen = now, pi_isMe = False, pi_conn = None, pi_knownPID = knownPID,
                       pi_publicKey = (if truthy (p_publicKey p) then p_publicKey p else None) \<rparr>
         in (AList.update (p_discoveryID p) entry reg1, cs1)))"

text \<open>
  \<open>nsMergeRegistry\<close> up to the assignment \<open>s.registry = newRegistry\<close>; it returns the
  new registry and the contacts. \<open>isPublicNS\<close> is the test \<open>s === mgr.publicNS\<close>. The
  calls that follow the assignment (\<open>nsEmit\<close>, \<open>rvzCheckRegistry\<close>, the auto-connect
  loop) read the registry and do not assign to it.
\<close>

definition nsMergeRegistry ::
  "(string \<Rightarrow> string) \<Rightarrow> string \<Rightarrow> int \<Rightarrow> bool \<Rightarrow> registry \<Rightarrow> contacts \<Rightarrow> RegistryPeer list
     \<Rightarrow> registry \<times> contacts" where
  "nsMergeRegistry extractDiscUUID myDiscID now isPublicNS reg cs peers =
     (let myEntry = List.find pi_isMe (map snd reg);
          newRegistry = (case myEntry of None \<Rightarrow> [] | Some me \<Rightarrow> [(pi_discoveryID me, me)]);
          cs0 = (if isPublicNS
                 then map (\<lambda>(k, c). (k, c\<lparr>c_onNetwork := False, c_networkDiscID := None\<rparr>)) cs
                 else cs)
      in foldl (mergePeer extractDiscUUID myDiscID now) (newRegistry, cs0) peers)"


text \<open>
  An example: a member whose registry holds its own entry and one for a peer that has left,
  and a broadcast that lists the member itself and a new peer.
\<close>

definition ex_me :: PeerInfo where
  "ex_me = \<lparr> pi_discoveryID = ''peerns-1-2-3-4-aa'', pi_friendlyName = ''Me'', pi_lastSeen = 10,
     pi_isMe = True, pi_conn = None, pi_knownPID = None, pi_publicKey = Some ''KA'' \<rparr>"

definition ex_gone :: PeerInfo where
  "ex_gone = \<lparr> pi_discoveryID = ''peerns-1-2-3-4-bb'', pi_friendlyName = ''Gone'', pi_lastSeen = 20,
     pi_isMe = False, pi_conn = None, pi_knownPID = None, pi_publicKey = Some ''KB'' \<rparr>"

definition ex_registry :: registry where
  "ex_registry = [(''peerns-1-2-3-4-aa'', ex_me), (''peerns-1-2-3-4-bb'', ex_gone)]"

definition ex_broadcast :: "RegistryPeer list" where
  "ex_broadcast =
     [\<lparr> p_discoveryID = ''peerns-1-2-3-4-aa'', p_friendlyname = ''Me'', p_publicKey = Some ''KA'' \<rparr>,
      \<lparr> p_discoveryID = ''peerns-1-2-3-4-cc'', p_friendlyname = ''New'', p_publicKey = Some ''KC'' \<rparr>]"

text \<open>
  A broadcast that lists the peer Cat twice, with the same public key: under the id it
  had before it re-registered and under its new id.
\<close>

definition ex_broadcast_rejoined :: "RegistryPeer list" where
  "ex_broadcast_rejoined =
     [\<lparr> p_discoveryID = ''peerns-1-2-3-4-aa'', p_friendlyname = ''Me'', p_publicKey = Some ''KA'' \<rparr>,
      \<lparr> p_discoveryID = ''peerns-1-2-3-4-cc'', p_friendlyname = ''Cat'', p_publicKey = Some ''KC'' \<rparr>,
      \<lparr> p_discoveryID = ''peerns-1-2-3-4-dd'', p_friendlyname = ''Dan'', p_publicKey = Some ''KD'' \<rparr>,
      \<lparr> p_discoveryID = ''peerns-1-2-3-4-ee'', p_friendlyname = ''Cat'', p_publicKey = Some ''KC'' \<rparr>]"

definition ex_dan :: PeerInfo where
  "ex_dan = \<lparr> pi_discoveryID = ''peerns-1-2-3-4-dd'', pi_friendlyName = ''Dan'', pi_lastSeen = 99,
     pi_isMe = False, pi_conn = None, pi_knownPID = None, pi_publicKey = Some ''KD'' \<rparr>"

definition ex_cat :: PeerInfo where
  "ex_cat = \<lparr> pi_discoveryID = ''peerns-1-2-3-4-ee'', pi_friendlyName = ''Cat'', pi_lastSeen = 99,
     pi_isMe = False, pi_conn = None, pi_knownPID = None, pi_publicKey = Some ''KC'' \<rparr>"

definition ex_extractDiscUUID :: "string \<Rightarrow> string" where
  "ex_extractDiscUUID did = drop 15 did"

section \<open>The manager's state (p2p.ts, p2p-types.ts, types.ts)\<close>

datatype dir = DirSent | DirRecv

datatype msgType = TypeText | TypeFile | TypeCall

datatype status = Waiting | Sent | Delivered | Failed

text \<open>
  A chat message. The fields \<open>retries\<close>, \<open>callKind\<close>, \<open>callDuration\<close> and
  \<open>callResult\<close> are not read or written by the functions modelled here.
\<close>

record ChatMessage =
  m_id :: string
  m_dir :: dir
  m_type :: "msgType option"
  m_content :: "string option"
  m_name :: "string option"
  m_tid :: "string option"
  m_size :: "int option"
  m_ts :: int
  m_status :: "status option"
  m_edited :: bool
  m_deleted :: bool

datatype groupMsgType = GroupText | GroupFile | GroupSystem

datatype groupStatus = Sending | GroupSent | GroupFailed

record GroupMessage =
  gm_id :: string
  gm_groupId :: string
  gm_senderFP :: string
  gm_senderName :: string
  gm_content :: string
  gm_ts :: int
  gm_type :: groupMsgType
  gm_status :: "groupStatus option"
  gm_e2e :: bool
  gm_iv :: "string option"
  gm_ct :: "string option"

text \<open>
  The fields \<open>name\<close>, \<open>tid\<close>, \<open>size\<close>, \<open>deliveredTo\<close>, \<open>edited\<close> and \<open>deleted\<close>
  of a group message are not read or written by the functions modelled here.
\<close>

datatype groupRole = RoleAdmin | RoleMember

record GroupMember =
  mb_fingerprint :: string
  mb_friendlyName :: string
  mb_publicKey :: "string option"
  mb_currentPID :: "string option"
  mb_joinedAt :: int
  mb_role :: groupRole

record GroupInfo =
  gi_id :: string
  gi_name :: string
  gi_createdBy :: string
  gi_createdAt :: int
  gi_members :: "(string \<times> GroupMember) list"
  gi_inviteSlug :: "string option"
  gi_groupKeyBase64 :: "string option"

text \<open>
  Keys are opaque \<open>CryptoKey\<close> handles. The module crypto.ts is not among the files of the
  repository that are modelled, and it wraps Web Crypto: its functions are the fields of
  the record \<open>Crypto\<close>, each returning \<open>None\<close> where the call throws.
  \<open>verifySignature\<close> stands for \<open>importPublicKey\<close> followed by \<open>verifySignature\<close>, and
  \<open>deriveSharedKey\<close> for \<open>ecdsaToECDHPublic\<close>, \<open>deriveSharedKey\<close> and
  \<open>fingerprintSharedKey\<close>. \<open>encryptGroupKeyForPeer\<close> stands for the four calls of the
  group key distribution (\<open>ecdsaToECDHPrivate\<close> of our private key, \<open>ecdsaToECDHPublic\<close>
  of the member's public key, \<open>deriveSharedKey\<close>, \<open>encryptGroupKeyForPeer\<close>); its
  arguments are our private key, the member's public key and the group key.
\<close>

type_synonym cryptoKey = nat

record SharedKey =
  sk_key :: cryptoKey
  sk_fingerprint :: string

record Crypto =
  encryptMessage :: "cryptoKey \<Rightarrow> string \<Rightarrow> (string \<times> string) option"
  decryptMessage :: "cryptoKey \<Rightarrow> string \<Rightarrow> string \<Rightarrow> string option"
  signData :: "cryptoKey \<Rightarrow> string \<Rightarrow> string option"
  verifySignature :: "string \<Rightarrow> string option \<Rightarrow> string \<Rightarrow> bool option"
  deriveSharedKey :: "cryptoKey \<Rightarrow> string \<Rightarrow> SharedKey option"
  encryptGroupKeyForPeer :: "cryptoKey option \<Rightarrow> string \<Rightarrow> cryptoKey \<Rightarrow> (string \<times> string) option"
  subtleAvailable :: bool

text \<open>What \<open>conn.send\<close> is given: one constructor for each message shape used here.\<close>

datatype wire =
    Message_e2e string string string int string
  | Message_plain "string option" int string
  | Message_ack "string option"
  | Rvz_exchange string string string string string
  | Group_message GroupMessage
  | Group_relay GroupMessage
  | Group_message_ack string string
  | Group_info_update GroupInfo
  | Group_backfill "GroupMessage list"
  | Group_key_distribute string string

datatype event =
    Event_message string
  | Event_contact_migrated string string
  | Event_group_update

text \<open>
  Calls into parts of the manager that are not modelled (the namespace teardown behind
  \<open>rvzDeactivate\<close>, and \<open>connectPersistent\<close>) are recorded, in order.
\<close>

datatype action =
    RvzDeactivate string
  | ConnectPersistent string string
  | CloseLater nat

record GroupState =
  g_messages :: "GroupMessage list"
  g_groupKey :: "cryptoKey option"
  g_groupKeyHistory :: "cryptoKey list option"
  g_isRouter :: bool
  g_routerConn :: "nat option"
  g_registry :: registry
  g_info :: GroupInfo

text \<open>
  The fields of \<open>P2PManager\<close> that the modelled functions use. A connection is a handle;
  \<open>openConns\<close> holds the handles whose \<open>open\<close> flag is set, and \<open>sent\<close> lists, in order,
  what was passed to \<open>send\<close> on which connection. \<open>events\<close> lists the dispatched events and
  \<open>notifications\<close> the calls of \<open>notify\<close>. \<open>rvzRepliedConns\<close> is the module-level
  \<open>WeakSet\<close> of p2p-rvz.ts. Writes to the persistent store (\<open>saveContacts\<close>,
  \<open>saveChats\<close>, \<open>saveGroupMessages\<close>) copy these fields out and are not modelled.
\<close>

record P2PManager =
  contacts :: contacts
  chats :: "(string \<times> ChatMessage list) list"
  sharedKeys :: "(string \<times> SharedKey) list"
  pidToFP :: "(string \<times> string) list"
  connectFailures :: "(string \<times> int) list"
  privateKey :: "cryptoKey option"
  ecdhPrivateKey :: "cryptoKey option"
  publicKeyStr :: string
  pubkeyFingerprint :: string
  friendlyName :: string
  persistentID :: string
  groups :: "(string \<times> GroupState) list"
  openConns :: "nat set"
  sent :: "(nat \<times> wire) list"
  events :: "event list"
  notifications :: "(string \<times> string \<times> string) list"
  actions :: "action list"
  rvzRepliedConns :: "nat set"

definition newManager :: P2PManager where
  "newManager = \<lparr> contacts = [], chats = [], sharedKeys = [], pidToFP = [], connectFailures = [],
     privateKey = None, ecdhPrivateKey = None, publicKeyStr = [], pubkeyFingerprint = [],
     friendlyName = [], persistentID = [], groups = [], openConns = {}, sent = [], events = [],
     notifications = [], actions = [], rvzRepliedConns = {} \<rparr>"

definition send :: "nat \<Rightarrow> wire \<Rightarrow> P2PManager \<Rightarrow> P2PManager" where
  "send conn w mgr = mgr\<lparr>sent := sent mgr @ [(conn, w)]\<rparr>"

text \<open>\<open>s || dflt\<close> for an optional string.\<close>

definition orElse :: "string option \<Rightarrow> string \<Rightarrow> string" where
  "orElse s dflt = (case s of None \<Rightarrow> dflt | Some v \<Rightarrow> if v = [] then dflt else v)"

definition getOrDeriveSharedKey :: "Crypto \<Rightarrow> string \<Rightarrow> P2PManager \<Rightarrow> SharedKey option \<times> P2PManager" where
  "getOrDeriveSharedKey crypto contactKey mgr =
     (case ecdhPrivateKey mgr of
        None \<Rightarrow> (None, mgr)
      | Some ecdh \<Rightarrow>
         (case map_of (contacts mgr) contactKey of
            None \<Rightarrow> (None, mgr)
          | Some c \<Rightarrow>
             (case c_publicKey c of
                None \<Rightarrow> (None, mgr)
              | Some pk \<Rightarrow>
                 if pk = [] then (None, mgr)
                 else (case map_of (sharedKeys mgr) contactKey of
                         Some cached \<Rightarrow> (Some cached, mgr)
                       | None \<Rightarrow>
                          (case deriveSharedKey crypto ecdh pk of
                             None \<Rightarrow> (None, mgr)
                           | Some entry \<Rightarrow>
                               (Some entry,
                                mgr\<lparr>sharedKeys := AList.update contactKey entry (sharedKeys mgr),
                                    contacts := AList.update contactKey
                                      (c\<lparr>c_sharedKeyFingerprint := Some (sk_fingerprint entry)\<rparr>)
                                      (contacts mgr)\<rparr>))))))"

section \<open>Direct messages (p2p-messaging.ts, p2p.ts)\<close>

text \<open>
  \<open>sendEncryptedMessage\<close>: with a shared key and our signing key, encrypt and sign; when
  either call throws, the \<open>catch\<close> logs and control falls through to the plaintext send.
\<close>

definition sendEncryptedMessage :: "Crypto \<Rightarrow> string \<Rightarrow> nat \<Rightarrow> ChatMessage \<Rightarrow> P2PManager \<Rightarrow> P2PManager" where
  "sendEncryptedMessage crypto contactKey conn msg mgr =
     (let (sk, mgr1) = getOrDeriveSharedKey crypto contactKey mgr;
          plaintext = send conn (Message_plain (m_content msg) (m_ts msg) (m_id msg)) mgr1
      in case sk of
           None \<Rightarrow> plaintext
         | Some k \<Rightarrow>
            (case privateKey mgr1 of
               None \<Rightarrow> plaintext
             | Some priv \<Rightarrow>
                (case encryptMessage crypto (sk_key k) (orElse (m_content msg) []) of
                   None \<Rightarrow> plaintext
                 | Some (iv, ct) \<Rightarrow>
                    (case signData crypto priv ct of
                       None \<Rightarrow> plaintext
                     | Some sig \<Rightarrow> send conn (Message_e2e iv ct sig (m_ts msg) (m_id msg)) mgr1))))"




definition pushChat :: "string \<Rightarrow> ChatMessage \<Rightarrow> P2PManager \<Rightarrow> P2PManager" where
  "pushChat contactKey msg mgr =
     mgr\<lparr>chats := (case map_of (chats mgr) contactKey of
                      None \<Rightarrow> AList.update contactKey [msg] (chats mgr)
                    | Some ms \<Rightarrow> AList.update contactKey (ms @ [msg]) (chats mgr))\<rparr>"


text \<open>
  The loop of \<open>flushMessageQueue\<close> over the messages that are \<open>sent\<close>-direction and
  \<open>waiting\<close> or \<open>failed\<close>: each text message among them is sent once and marked
  \<open>sent\<close>. The loop walks the chat in order; \<open>done\<close> holds the messages already passed.
  \<open>send\<close> does not fail in this model, so the \<open>catch\<close> that leaves a message as it
  was is not reached. The pending files of the contact are sent by \<open>_sendFileNow\<close>,
  which is not modelled.
\<close>

fun flushLoop :: "Crypto \<Rightarrow> string \<Rightarrow> nat \<Rightarrow> ChatMessage list \<Rightarrow> ChatMessage list \<Rightarrow> P2PManager
    \<Rightarrow> ChatMessage list \<times> P2PManager" where
  "flushLoop crypto contactKey conn done [] mgr = (done, mgr)"
| "flushLoop crypto contactKey conn done (m # ms) mgr =
     (if m_dir m = DirSent \<and> (m_status m = Some Waiting \<or> m_status m = Some Failed)
         \<and> m_type m = Some TypeText
      then flushLoop crypto contactKey conn (done @ [m\<lparr>m_status := Some Sent\<rparr>]) ms
             (sendEncryptedMessage crypto contactKey conn m mgr)
      else flushLoop crypto contactKey conn (done @ [m]) ms mgr)"

definition flushMessageQueue :: "Crypto \<Rightarrow> string \<Rightarrow> P2PManager \<Rightarrow> P2PManager" where
  "flushMessageQueue crypto contactKey mgr =
     (case map_of (contacts mgr) contactKey of
        None \<Rightarrow> mgr
      | Some c \<Rightarrow>
         (case c_conn c of
            None \<Rightarrow> mgr
          | Some conn \<Rightarrow>
             if conn \<notin> openConns mgr then mgr
             else (case map_of (chats mgr) contactKey of
                     None \<Rightarrow> mgr
                   | Some ms \<Rightarrow>
                      (let (ms', mgr1) = flushLoop crypto contactKey conn [] ms mgr in
                       if ms' = ms then mgr1
                       else mgr1\<lparr>chats := AList.update contactKey ms' (chats mgr1),
                                 events := events mgr1 @ [Event_message contactKey],
                                 connectFailures := AList.delete
                                   (if c_currentPID c = [] then contactKey else c_currentPID c)
                                   (connectFailures mgr1)\<rparr>))))"

text \<open>\<open>resetUnackedMessages\<close>: every \<open>sent\<close>-direction message with status \<open>sent\<close>, in every chat.\<close>

definition resetUnackedMessages :: "P2PManager \<Rightarrow> P2PManager" where
  "resetUnackedMessages mgr =
     mgr\<lparr>chats := map (\<lambda>(pid, ms). (pid,
        map (\<lambda>m. if m_dir m = DirSent \<and> m_status m = Some Sent then m\<lparr>m_status := Some Waiting\<rparr> else m) ms))
        (chats mgr)\<rparr>"

text \<open>
  The body of the interval callback of \<open>startCheckinTimer\<close> on the branch where the
  signaling socket is alive: reset the unacked messages, then flush the queue of every
  contact with an open channel. The callback reads no clock.
\<close>

definition checkinTimerAlive :: "Crypto \<Rightarrow> P2PManager \<Rightarrow> P2PManager" where
  "checkinTimerAlive crypto mgr =
     foldl (\<lambda>m key.
        (case map_of (contacts m) key of
           None \<Rightarrow> m
         | Some c \<Rightarrow> (case c_conn c of
                        None \<Rightarrow> m
                      | Some conn \<Rightarrow> if conn \<in> openConns m then flushMessageQueue crypto key m else m)))
       (resetUnackedMessages mgr) (map fst (contacts mgr))"

text \<open>The fields of an incoming payload of type \<open>message\<close>.\<close>

record MessageData =
  d_id :: "string option"
  d_ts :: int
  d_content :: "string option"
  d_e2e :: bool
  d_iv :: "string option"
  d_ct :: "string option"
  d_sig :: "string option"

text \<open>
  The content shown for an incoming message: decrypted when the payload is encrypted and
  the signature verifies, a bracketed notice when not. (The source's notices have a long
  dash where a hyphen stands here.)
\<close>

definition incomingContent :: "Crypto \<Rightarrow> string \<Rightarrow> MessageData \<Rightarrow> P2PManager \<Rightarrow> string \<times> P2PManager" where
  "incomingContent crypto ck d mgr =
     (case (d_e2e d, d_ct d, d_iv d) of
        (True, Some ct, Some iv) \<Rightarrow>
          if ct = [] \<or> iv = [] then (orElse (d_content d) [], mgr)
          else (let (sk, mgr1) = getOrDeriveSharedKey crypto ck mgr in
                case (sk, map_of (contacts mgr1) ck) of
                  (Some k, Some contact) \<Rightarrow>
                    (case c_publicKey contact of
                       None \<Rightarrow> (''[encrypted - no shared key]'', mgr1)
                     | Some pk \<Rightarrow>
                        if pk = [] then (''[encrypted - no shared key]'', mgr1)
                        else (case verifySignature crypto pk (d_sig d) ct of
                                None \<Rightarrow> (''[encrypted - decryption failed]'', mgr1)
                              | Some False \<Rightarrow> (''[unverified encrypted message]'', mgr1)
                              | Some True \<Rightarrow>
                                 (case decryptMessage crypto (sk_key k) iv ct of
                                    None \<Rightarrow> (''[encrypted - decryption failed]'', mgr1)
                                  | Some text \<Rightarrow> (text, mgr1))))
                | _ \<Rightarrow> (''[encrypted - no shared key]'', mgr1))
      | _ \<Rightarrow> (orElse (d_content d) [], mgr))"

text \<open>
  The branch \<open>d.type === 'message'\<close> of \<open>handlePersistentData\<close>; \<open>ck\<close> is
  \<open>mgr.contactKeyForPID(conn.peer)\<close> and \<open>uuid\<close> the \<open>crypto.randomUUID()\<close> used when
  the payload has no id.
\<close>

definition handlePersistentData_message ::
  "Crypto \<Rightarrow> string \<Rightarrow> string \<Rightarrow> nat \<Rightarrow> MessageData \<Rightarrow> P2PManager \<Rightarrow> P2PManager" where
  "handlePersistentData_message crypto uuid ck conn d mgr =
     (let mgr0 = (if map_of (chats mgr) ck = None
                  then mgr\<lparr>chats := AList.update ck [] (chats mgr)\<rparr> else mgr);
          (content, mgr1) = incomingContent crypto ck d mgr0;
          msg = \<lparr> m_id = orElse (d_id d) uuid, m_dir = DirRecv, m_type = Some TypeText,
                  m_content = Some content, m_name = None, m_tid = None, m_size = None,
                  m_ts = d_ts d, m_status = None, m_edited = False, m_deleted = False \<rparr>;
          mgr2 = pushChat ck msg mgr1;
          mgr3 = (if conn \<in> openConns mgr2 then send conn (Message_ack (d_id d)) mgr2 else mgr2);
          fname = (case map_of (contacts mgr3) ck of
                     None \<Rightarrow> ''Someone''
                   | Some c \<Rightarrow> if c_friendlyName c = [] then ''Someone'' else c_friendlyName c)
      in mgr3\<lparr>notifications := notifications mgr3 @
                 [(fname, if take 100 content = [] then ''New message'' else take 100 content,
                   ''msg-'' @ ck)],
              events := events mgr3 @ [Event_message ck]\<rparr>)"

section \<open>Group messages (p2p-group.ts)\<close>


definition updateGroup :: "string \<Rightarrow> (GroupState \<Rightarrow> GroupState) \<Rightarrow> P2PManager \<Rightarrow> P2PManager" where
  "updateGroup groupId f mgr = mgr\<lparr>groups := AList.map_entry groupId f (groups mgr)\<rparr>"





text \<open>
  The member's decryption of an incoming group message: the current key, then the keys
  of the history in order; when all fail the content stays as received.
\<close>

fun tryHistory :: "Crypto \<Rightarrow> cryptoKey list \<Rightarrow> string \<Rightarrow> string \<Rightarrow> string option" where
  "tryHistory crypto [] iv ct = None"
| "tryHistory crypto (hk # hks) iv ct =
     (case decryptMessage crypto hk iv ct of
        Some text \<Rightarrow> Some text
      | None \<Rightarrow> tryHistory crypto hks iv ct)"

definition groupDecryptLocal :: "Crypto \<Rightarrow> GroupState \<Rightarrow> GroupMessage \<Rightarrow> GroupMessage" where
  "groupDecryptLocal crypto state msg =
     (case (gm_e2e msg, gm_iv msg, gm_ct msg, g_groupKey state) of
        (True, Some iv, Some ct, Some k) \<Rightarrow>
          if iv = [] \<or> ct = [] then msg
          else (case decryptMessage crypto k iv ct of
                  Some text \<Rightarrow> msg\<lparr>gm_content := text\<rparr>
                | None \<Rightarrow>
                   (case tryHistory crypto (case g_groupKeyHistory state of None \<Rightarrow> [] | Some h \<Rightarrow> h) iv ct of
                      Some text \<Rightarrow> msg\<lparr>gm_content := text\<rparr>
                    | None \<Rightarrow> msg))
      | _ \<Rightarrow> msg)"

text \<open>The branch \<open>d.type === 'group-relay'\<close> of \<open>groupHandleMemberData\<close>.\<close>

definition groupHandleMemberData_relay ::
  "Crypto \<Rightarrow> string \<Rightarrow> GroupMessage \<Rightarrow> nat option \<Rightarrow> P2PManager \<Rightarrow> P2PManager" where
  "groupHandleMemberData_relay crypto groupId msg conn mgr =
     (case map_of (groups mgr) groupId of
        None \<Rightarrow> mgr
      | Some state \<Rightarrow>
         if gm_senderFP msg = pubkeyFingerprint mgr then mgr
         else if \<exists>m \<in> set (g_messages state). gm_id m = gm_id msg then mgr
         else (let localMsg = groupDecryptLocal crypto state msg;
                   mgr1 = updateGroup groupId (\<lambda>st. st\<lparr>g_messages := g_messages st @ [localMsg]\<rparr>) mgr;
                   mgr2 = (case conn of
                             None \<Rightarrow> mgr1
                           | Some c \<Rightarrow> if c \<in> openConns mgr1
                                       then send c (Group_message_ack (gm_id msg) (pubkeyFingerprint mgr1)) mgr1
                                       else mgr1);
                   mgr3 = (if gm_type localMsg \<noteq> GroupSystem
                           then mgr2\<lparr>notifications := notifications mgr2 @
                                  [(gm_senderName localMsg,
                                    if take 100 (gm_content localMsg) = [] then ''New group message''
                                    else take 100 (gm_content localMsg),
                                    ''group-'' @ groupId)]\<rparr>
                           else mgr2)
               in mgr3\<lparr>events := events mgr3 @ [Event_group_update]\<rparr>))"


text \<open>\<open>groupBackfill\<close>: the stored messages newer than \<open>sinceTs\<close>, when there are any.\<close>

definition groupBackfill :: "string \<Rightarrow> nat \<Rightarrow> int \<Rightarrow> P2PManager \<Rightarrow> P2PManager" where
  "groupBackfill groupId conn sinceTs mgr =
     (case map_of (groups mgr) groupId of
        None \<Rightarrow> mgr
      | Some state \<Rightarrow>
         (let missed = filter (\<lambda>m. gm_ts m > sinceTs) (g_messages state) in
          if length missed > 0 \<and> conn \<in> openConns mgr
          then send conn (Group_backfill missed) mgr
          else mgr))"

text \<open>The fields of an incoming payload of type \<open>group-checkin\<close>.\<close>

record CheckinData =
  ci_fingerprint :: "string option"
  ci_friendlyName :: "string option"
  ci_publicKey :: "string option"
  ci_pid :: "string option"
  ci_sinceTs :: "int option"

text \<open>
  The member update of the \<open>group-checkin\<close> branch: a known member gets the new PID, name
  and public key; an unknown fingerprint is added as a member, joined at \<open>Date.now()\<close>.
\<close>

definition checkinMembers :: "int \<Rightarrow> CheckinData \<Rightarrow> GroupInfo \<Rightarrow> GroupInfo" where
  "checkinMembers now d info =
     (case ci_fingerprint d of
        None \<Rightarrow> info
      | Some fp \<Rightarrow>
          if fp = [] then info
          else (case map_of (gi_members info) fp of
                  Some m \<Rightarrow>
                    info\<lparr>gi_members := AList.update fp
                      (m\<lparr>mb_currentPID := ci_pid d,
                         mb_friendlyName := orElse (ci_friendlyName d) (mb_friendlyName m),
                         mb_publicKey := (if truthy (ci_publicKey d) then ci_publicKey d
                                          else mb_publicKey m)\<rparr>)
                      (gi_members info)\<rparr>
                | None \<Rightarrow>
                    info\<lparr>gi_members := AList.update fp
                      \<lparr> mb_fingerprint = fp, mb_friendlyName = orElse (ci_friendlyName d) ''Unknown'',
                        mb_publicKey = ci_publicKey d, mb_currentPID = ci_pid d,
                        mb_joinedAt = now, mb_role = RoleMember \<rparr>
                      (gi_members info)\<rparr>))"

text \<open>
  The branch \<open>d.type === 'group-checkin'\<close> of \<open>groupHandleRouterData\<close>, whole: the member
  update; over an open channel the group info and then the backfill for \<open>d.sinceTs || 0\<close>;
  the group key for the member, when there is a group key, the payload has a public key
  and the channel is open (nothing is sent when a call of the distribution throws); and
  the group info to every registry entry that has a connection and is not the router's own.
\<close>

definition groupHandleRouterData_checkin ::
  "Crypto \<Rightarrow> int \<Rightarrow> string \<Rightarrow> CheckinData \<Rightarrow> nat \<Rightarrow> P2PManager \<Rightarrow> P2PManager" where
  "groupHandleRouterData_checkin crypto now groupId d conn mgr =
     (case map_of (groups mgr) groupId of
        None \<Rightarrow> mgr
      | Some state \<Rightarrow>
         (let info = checkinMembers now d (g_info state);
              mgr1 = updateGroup groupId (\<lambda>st. st\<lparr>g_info := info\<rparr>) mgr;
              mgr2 = (if conn \<in> openConns mgr1
                      then groupBackfill groupId conn (case ci_sinceTs d of None \<Rightarrow> 0 | Some t \<Rightarrow> t)
                             (send conn (Group_info_update info) mgr1)
                      else mgr1);
              mgr3 = (case (g_groupKey state, ci_publicKey d) of
                        (Some k, Some pk) \<Rightarrow>
                          if pk \<noteq> [] \<and> conn \<in> openConns mgr2
                          then (case encryptGroupKeyForPeer crypto (privateKey mgr2) pk k of
                                  None \<Rightarrow> mgr2
                                | Some (iv, ct) \<Rightarrow> send conn (Group_key_distribute iv ct) mgr2)
                          else mgr2
                      | _ \<Rightarrow> mgr2);
              mgr4 = foldl (\<lambda>m r. case pi_conn r of
                                     None \<Rightarrow> m
                                   | Some c \<Rightarrow> if pi_isMe r then m else send c (Group_info_update info) m)
                       mgr3 (map snd (g_registry state))
          in mgr4\<lparr>events := events mgr4 @ [Event_group_update]\<rparr>))"

fun isBackfill :: "wire \<Rightarrow> bool" where
  "isBackfill (Group_backfill ms) = True"
| "isBackfill w = False"

section \<open>The rendezvous exchange (p2p-rvz.ts)\<close>

text \<open>The fields of an incoming payload of type \<open>rvz-exchange\<close>.\<close>

record ExchangeData =
  x_publicKey :: "string option"
  x_signature :: "string option"
  x_ts :: "string option"
  x_persistentID :: "string option"
  x_friendlyName :: "string option"
  x_friendlyname :: "string option"

text \<open>
  \<open>findContactByPublicKey\<close> with no excluded key: the first contact, in key order, whose
  public key is set and equal to the given one.
\<close>

definition findContactByPublicKey :: "string \<Rightarrow> P2PManager \<Rightarrow> string option" where
  "findContactByPublicKey publicKey mgr =
     map_option fst (List.find (\<lambda>(k, c). truthy (c_publicKey c) \<and> c_publicKey c = Some publicKey)
        (contacts mgr))"

text \<open>
  The steps of \<open>rvzHandleExchange\<close>, in the order of the source. An exception leaves the
  handler where it is raised, with the state as changed so far; a step that raises returns
  \<open>None\<close>.

  The signature check: run when the payload has a public key, a signature and a timestamp
  and \<open>crypto.subtle\<close> exists; a signature that is invalid, or a check that throws, fails.
\<close>

definition rvzVerified :: "Crypto \<Rightarrow> ExchangeData \<Rightarrow> bool" where
  "rvzVerified crypto d =
     (case (x_publicKey d, x_signature d, x_ts d) of
        (Some pk, Some sg, Some ts) \<Rightarrow>
          if pk \<noteq> [] \<and> sg \<noteq> [] \<and> ts \<noteq> [] \<and> subtleAvailable crypto
          then (case verifySignature crypto pk (Some sg) ts of
                  Some True \<Rightarrow> True
                | _ \<Rightarrow> False)
          else True
      | _ \<Rightarrow> True)"

text \<open>The contact matched by public key; an empty key is falsy and counts as no match.\<close>

definition rvzContactKey :: "ExchangeData \<Rightarrow> P2PManager \<Rightarrow> string option" where
  "rvzContactKey d mgr =
     (case (if truthy (x_publicKey d)
            then findContactByPublicKey (orElse (x_publicKey d) []) mgr else None) of
        None \<Rightarrow> None
      | Some k \<Rightarrow> if k = [] then None else Some k)"

text \<open>
  The PID update of the matched contact. A missing \<open>persistentID\<close> raises in the log
  line (\<open>newPID.slice\<close>), before anything is written.
\<close>

definition rvzUpdateContact :: "ExchangeData \<Rightarrow> string option \<Rightarrow> P2PManager \<Rightarrow> P2PManager option" where
  "rvzUpdateContact d contactKey mgr =
     (case contactKey of
        None \<Rightarrow> Some mgr
      | Some k \<Rightarrow>
         (case map_of (contacts mgr) k of
            None \<Rightarrow> Some mgr
          | Some c \<Rightarrow>
             (case x_persistentID d of
                None \<Rightarrow> None
              | Some newPID \<Rightarrow>
                 if c_currentPID c = newPID then Some mgr
                 else Some (mgr\<lparr>contacts := AList.update k
                         (c\<lparr>c_currentPID := newPID,
                            c_knownPIDs :=
                              (case c_knownPIDs c of
                                 None \<Rightarrow> Some [newPID]
                               | Some ks \<Rightarrow> if newPID \<in> set ks then Some ks
                                            else Some (ks @ [newPID]))\<rparr>)
                         (contacts mgr),
                       pidToFP := AList.update newPID k (pidToFP mgr)\<rparr>))))"

text \<open>
  The reply, sent once per connection: the connection must be open and not in the replied
  set; it is put in the set first. \<open>now\<close> is \<open>Date.now().toString()\<close>; the signature is
  empty without a private key. A \<open>signData\<close> that throws raises after the connection was
  recorded and before \<open>send\<close>: no reply goes out. The \<open>setTimeout\<close> that closes the
  connection a second later is recorded as \<open>CloseLater\<close>.
\<close>

definition rvzReplyOnce :: "Crypto \<Rightarrow> string \<Rightarrow> nat \<Rightarrow> P2PManager \<Rightarrow> P2PManager \<times> bool" where
  "rvzReplyOnce crypto now conn mgr =
     (if conn \<in> openConns mgr \<and> conn \<notin> rvzRepliedConns mgr
      then (let mgr1 = mgr\<lparr>rvzRepliedConns := insert conn (rvzRepliedConns mgr)\<rparr> in
            case (case privateKey mgr1 of None \<Rightarrow> Some [] | Some priv \<Rightarrow> signData crypto priv now) of
              None \<Rightarrow> (mgr1, False)
            | Some signature \<Rightarrow>
                ((send conn (Rvz_exchange (persistentID mgr1) (friendlyName mgr1) (publicKeyStr mgr1)
                     now signature) mgr1)
                  \<lparr>actions := actions mgr1 @ [CloseLater conn]\<rparr>, True))
      else (mgr, True))"

text \<open>The teardown of the contact's rendezvous namespace and the persistent reconnect.\<close>

definition rvzReconnect :: "ExchangeData \<Rightarrow> string option \<Rightarrow> P2PManager \<Rightarrow> P2PManager" where
  "rvzReconnect d contactKey mgr =
     (let fname = orElse (x_friendlyName d) (orElse (x_friendlyname d) ''Unknown'');
          mgr1 = (case contactKey of
                    None \<Rightarrow> mgr
                  | Some k \<Rightarrow> mgr\<lparr>actions := actions mgr @ [RvzDeactivate k]\<rparr>)
      in case (case contactKey of Some k \<Rightarrow> Some k | None \<Rightarrow> x_persistentID d) of
           None \<Rightarrow> mgr1
         | Some ck \<Rightarrow>
            (case (map_of (contacts mgr1) ck, x_persistentID d) of
               (Some c, Some newPID) \<Rightarrow>
                 mgr1\<lparr>connectFailures := AList.delete newPID (connectFailures mgr1),
                      actions := actions mgr1 @ [ConnectPersistent newPID fname]\<rparr>
             | _ \<Rightarrow> mgr1))"

text \<open>
  \<open>rvzHandleExchange\<close>. The second component of \<open>rvzReplyOnce\<close> is \<open>False\<close> when the
  reply raised. The test of the replied set and the insertion into it are in one
  synchronous stretch of the source, with no \<open>await\<close> between them, so two handlers cannot
  both pass the test for one connection; the handler is modelled as one step.
\<close>

definition rvzHandleExchange :: "Crypto \<Rightarrow> string \<Rightarrow> ExchangeData \<Rightarrow> nat \<Rightarrow> P2PManager \<Rightarrow> P2PManager" where
  "rvzHandleExchange crypto now d conn mgr =
     (if \<not> rvzVerified crypto d then mgr\<lparr>openConns := openConns mgr - {conn}\<rparr>
      else case rvzUpdateContact d (rvzContactKey d mgr) mgr of
             None \<Rightarrow> mgr
           | Some mgr1 \<Rightarrow>
              (case rvzReplyOnce crypto now conn mgr1 of
                 (mgr2, False) \<Rightarrow> mgr2
               | (mgr2, True) \<Rightarrow> rvzReconnect d (rvzContactKey d mgr) mgr2))"

text \<open>How many \<open>rvz-exchange\<close> payloads were sent on a connection.\<close>

fun isRvzExchange :: "wire \<Rightarrow> bool" where
  "isRvzExchange (Rvz_exchange p f k t s) = True"
| "isRvzExchange w = False"

definition rvzReplies :: "nat \<Rightarrow> P2PManager \<Rightarrow> nat" where
  "rvzReplies conn mgr = length (filter (\<lambda>(c, w). c = conn \<and> isRvzExchange w) (sent mgr))"

text \<open>
  A run of the handler: a list of deliveries, each an exchange payload arriving on a
  connection at a time. Between two deliveries other events may open or close connections
  and change contacts; none of them removes a connection from the replied set.
\<close>

fun rvzRun :: "Crypto \<Rightarrow> (string \<times> ExchangeData \<times> nat) list \<Rightarrow> P2PManager \<Rightarrow> P2PManager" where
  "rvzRun crypto [] mgr = mgr"
| "rvzRun crypto ((now, d, conn) # rest) mgr = rvzRun crypto rest (rvzHandleExchange crypto now d conn mgr)"

text \<open>An example: an open connection 3 to a manager with a private key and no contacts.\<close>

definition ex_crypto :: Crypto where
  "ex_crypto = \<lparr> encryptMessage = (\<lambda>k text. Some (''iv'', rev text)),
     decryptMessage = (\<lambda>k iv ct. Some (rev ct)),
     signData = (\<lambda>k text. Some (''sig:'' @ text)),
     verifySignature = (\<lambda>pk sg text. Some (sg = Some (''sig:'' @ text))),
     deriveSharedKey = (\<lambda>k pk. Some \<lparr> sk_key = k + length pk, sk_fingerprint = ''skfp'' \<rparr>),
     encryptGroupKeyForPeer = (\<lambda>priv pk k. case priv of None \<Rightarrow> None | Some p \<Rightarrow> Some (''giv'', pk)),
     subtleAvailable = True \<rparr>"

definition ex_exchange :: ExchangeData where
  "ex_exchange = \<lparr> x_publicKey = Some ''KB'', x_signature = Some ''sig:1700'', x_ts = Some ''1700'',
     x_persistentID = Some ''pid-bob'', x_friendlyName = Some ''Bob'', x_friendlyname = None \<rparr>"

definition ex_rvz_manager :: P2PManager where
  "ex_rvz_manager = newManager\<lparr>privateKey := Some 1, persistentID := ''pid-me'',
     friendlyName := ''Me'', publicKeyStr := ''KA'', openConns := {3}\<rparr>"

section \<open>Contact migration (p2p.ts, migrateContact)\<close>

text \<open>
  \<open>[...new Set(xs)]\<close>: the elements of \<open>xs\<close> in order of first occurrence.
\<close>

definition setOf :: "'a list \<Rightarrow> 'a list" where
  "setOf xs = rev (remdups (rev xs))"

text \<open>
  The \<open>else\<close> branch of \<open>migrateContact\<close>, for a contact that already exists under the
  new key: fields the new record lacks are taken from the old one, the current PID is the
  old record's when it has one, and the known PIDs are joined.
\<close>

definition mergeContact :: "Contact \<Rightarrow> Contact \<Rightarrow> Contact" where
  "mergeContact existing n =
     (let n1 = (if truthy (c_publicKey existing) \<and> \<not> truthy (c_publicKey n)
                then n\<lparr>c_publicKey := c_publicKey existing\<rparr> else n);
          n2 = (if truthy (c_fingerprint existing) \<and> \<not> truthy (c_fingerprint n1)
                then n1\<lparr>c_fingerprint := c_fingerprint existing\<rparr> else n1);
          n3 = (if c_currentPID existing \<noteq> []
                then n2\<lparr>c_currentPID := c_currentPID existing\<rparr> else n2)
      in case c_knownPIDs existing of
           None \<Rightarrow> n3
         | Some ks \<Rightarrow>
             n3\<lparr>c_knownPIDs := Some (setOf ((case c_knownPIDs n3 of None \<Rightarrow> [] | Some ns \<Rightarrow> ns) @ ks))\<rparr>)"

text \<open>
  The merge of two chat histories: the new key's messages, then the old key's messages
  whose id the new key's history does not have, sorted by timestamp (the sort of
  JavaScript arrays is stable, as \<open>sort_key\<close> is).
\<close>

definition mergeChats :: "ChatMessage list \<Rightarrow> ChatMessage list \<Rightarrow> ChatMessage list" where
  "mergeChats newMsgs oldMsgs =
     sort_key m_ts (newMsgs @ filter (\<lambda>m. m_id m \<notin> set (map m_id newMsgs)) oldMsgs)"

text \<open>
  The loop that points the PIDs of the migrated contact at its fingerprint and clears their
  failure counters.
\<close>

definition mapPIDs :: "string \<Rightarrow> string list \<Rightarrow> P2PManager \<Rightarrow> P2PManager" where
  "mapPIDs fp pids mgr =
     foldl (\<lambda>m pid. m\<lparr>pidToFP := AList.update pid fp (pidToFP m),
                      connectFailures := AList.delete pid (connectFailures m)\<rparr>) mgr pids"

text \<open>The steps of \<open>migrateContact\<close>, in the order of the source.\<close>

definition migrateRecord :: "string \<Rightarrow> Contact \<Rightarrow> P2PManager \<Rightarrow> P2PManager" where
  "migrateRecord newKey existing mgr =
     mgr\<lparr>contacts := AList.update newKey
        (case map_of (contacts mgr) newKey of
           None \<Rightarrow> existing\<lparr>c_conn := None\<rparr>
         | Some n \<Rightarrow> mergeContact existing n) (contacts mgr)\<rparr>"

definition migrateChats :: "string \<Rightarrow> string \<Rightarrow> P2PManager \<Rightarrow> P2PManager" where
  "migrateChats oldKey newKey mgr =
     (case map_of (chats mgr) oldKey of
        None \<Rightarrow> mgr
      | Some oldMsgs \<Rightarrow>
          mgr\<lparr>chats := AList.delete oldKey
            (case map_of (chats mgr) newKey of
               None \<Rightarrow> AList.update newKey oldMsgs (chats mgr)
             | Some newMsgs \<Rightarrow> AList.update newKey (mergeChats newMsgs oldMsgs) (chats mgr))\<rparr>)"

definition migrateSharedKey :: "string \<Rightarrow> string \<Rightarrow> P2PManager \<Rightarrow> P2PManager" where
  "migrateSharedKey oldKey newKey mgr =
     mgr\<lparr>sharedKeys := AList.delete oldKey
        (case (map_of (sharedKeys mgr) oldKey, map_of (sharedKeys mgr) newKey) of
           (Some oldSK, None) \<Rightarrow> AList.update newKey oldSK (sharedKeys mgr)
         | _ \<Rightarrow> sharedKeys mgr)\<rparr>"

definition migratePIDs :: "string \<Rightarrow> P2PManager \<Rightarrow> P2PManager" where
  "migratePIDs newKey mgr =
     (case map_of (contacts mgr) newKey of
        None \<Rightarrow> mgr
      | Some c \<Rightarrow>
         (case c_fingerprint c of
            None \<Rightarrow> mgr
          | Some fp \<Rightarrow>
              if fp = [] then mgr
              else (let mgr1 = mapPIDs fp (case c_knownPIDs c of None \<Rightarrow> [] | Some ks \<Rightarrow> ks) mgr
                    in if c_currentPID c \<noteq> [] then mapPIDs fp [c_currentPID c] mgr1 else mgr1)))"

definition dropOldContact :: "string \<Rightarrow> string \<Rightarrow> P2PManager \<Rightarrow> P2PManager" where
  "dropOldContact oldKey newKey mgr =
     mgr\<lparr>contacts := AList.delete oldKey (contacts mgr),
         events := events mgr @ [Event_contact_migrated oldKey newKey]\<rparr>"

definition migrateContact :: "string \<Rightarrow> string \<Rightarrow> P2PManager \<Rightarrow> P2PManager" where
  "migrateContact oldKey newKey mgr =
     (if oldKey = newKey then mgr
      else case map_of (contacts mgr) oldKey of
        None \<Rightarrow> mgr
      | Some existing \<Rightarrow>
          dropOldContact oldKey newKey
            (migratePIDs newKey
              (migrateSharedKey oldKey newKey
                (migrateChats oldKey newKey
                  (migrateRecord newKey existing mgr)))))"

text \<open>
  An example: a contact still stored under its PID, with a chat, a cached shared key and a
  failure counter, and the same person stored under the fingerprint with a chat that shares
  one message id.
\<close>

definition ex_msg :: "string \<Rightarrow> int \<Rightarrow> ChatMessage" where
  "ex_msg i t = \<lparr> m_id = i, m_dir = DirRecv, m_type = Some TypeText, m_content = Some ''hi'',
     m_name = None, m_tid = None, m_size = None, m_ts = t, m_status = None,
     m_edited = False, m_deleted = False \<rparr>"

definition ex_contact :: "string \<Rightarrow> string option \<Rightarrow> string list \<Rightarrow> Contact" where
  "ex_contact pid fp known = \<lparr> c_friendlyName = ''Bob'', c_fingerprint = fp,
     c_publicKey = Some ''KB'', c_currentPID = pid, c_knownPIDs = Some known,
     c_discoveryID = None, c_discoveryUUID = ''u1'', c_sharedKeyFingerprint = None,
     c_conn = None, c_onNetwork = False, c_networkDiscID = None, c_lastSeen = None,
     c_pending = None \<rparr>"

definition ex_two_records :: P2PManager where
  "ex_two_records = newManager\<lparr>
     contacts := [(''pid-old'', ex_contact ''pid-new'' None [''pid-old'', ''pid-new'']),
                  (''fp01'', ex_contact ''pid-old'' (Some ''fp01'') [''pid-old''])],
     chats := [(''pid-old'', [ex_msg ''m2'' 20, ex_msg ''m3'' 30]),
               (''fp01'', [ex_msg ''m1'' 10, ex_msg ''m2'' 20])],
     sharedKeys := [(''pid-old'', \<lparr> sk_key = 5, sk_fingerprint = ''skfp'' \<rparr>)],
     connectFailures := [(''pid-new'', 2)]\<rparr>"

section \<open>Example states for messages\<close>

text \<open>
  A router's group \<open>g1\<close> with three stored messages at times 10, 20 and 30, and an open
  connection 4 to a member.
\<close>

definition ex_gmsg :: "string \<Rightarrow> int \<Rightarrow> GroupMessage" where
  "ex_gmsg i t = \<lparr> gm_id = i, gm_groupId = ''g1'', gm_senderFP = ''fp02'', gm_senderName = ''Bob'',
     gm_content = ''hello'', gm_ts = t, gm_type = GroupText, gm_status = Some GroupSent,
     gm_e2e = False, gm_iv = None, gm_ct = None \<rparr>"

definition ex_info :: GroupInfo where
  "ex_info = \<lparr> gi_id = ''g1'', gi_name = ''Team'', gi_createdBy = ''fp01'', gi_createdAt = 5,
     gi_members = [], gi_inviteSlug = None, gi_groupKeyBase64 = None \<rparr>"

definition ex_group :: "cryptoKey option \<Rightarrow> GroupState" where
  "ex_group k = \<lparr> g_messages = [ex_gmsg ''a'' 10, ex_gmsg ''b'' 20, ex_gmsg ''c'' 30],
     g_groupKey = k, g_groupKeyHistory = None, g_isRouter = False, g_routerConn = Some 4,
     g_registry = [], g_info = ex_info \<rparr>"

definition ex_group_manager :: "cryptoKey option \<Rightarrow> P2PManager" where
  "ex_group_manager k = newManager\<lparr>groups := [(''g1'', ex_group k)], openConns := {4},
     pubkeyFingerprint := ''fp01'', friendlyName := ''Me''\<rparr>"

text \<open>
  The router of the group \<open>g1\<close>, with the group key 9 and its signing key: its registry
  holds its own entry and the members Bob, on the open connection 4, and Carol, on the open
  connection 5. Bob checks in with \<open>sinceTs = 15\<close> and his public key.
\<close>

definition ex_group_registry :: registry where
  "ex_group_registry =
     [(''fp01'', \<lparr> pi_discoveryID = ''fp01'', pi_friendlyName = ''Me'', pi_lastSeen = 1,
         pi_isMe = True, pi_conn = None, pi_knownPID = None, pi_publicKey = None \<rparr>),
      (''fp02'', \<lparr> pi_discoveryID = ''fp02'', pi_friendlyName = ''Bob'', pi_lastSeen = 1,
         pi_isMe = False, pi_conn = Some 4, pi_knownPID = None, pi_publicKey = Some ''pk-bob'' \<rparr>),
      (''fp03'', \<lparr> pi_discoveryID = ''fp03'', pi_friendlyName = ''Carol'', pi_lastSeen = 1,
         pi_isMe = False, pi_conn = Some 5, pi_knownPID = None, pi_publicKey = None \<rparr>)]"

definition ex_router_group :: GroupState where
  "ex_router_group = (ex_group (Some 9))\<lparr>g_isRouter := True, g_routerConn := None,
     g_registry := ex_group_registry\<rparr>"

definition ex_router_manager :: P2PManager where
  "ex_router_manager = newManager\<lparr>groups := [(''g1'', ex_router_group)], openConns := {4, 5},
     privateKey := Some 1, pubkeyFingerprint := ''fp01'', friendlyName := ''Me''\<rparr>"

definition ex_checkin :: CheckinData where
  "ex_checkin = \<lparr> ci_fingerprint = Some ''fp02'', ci_friendlyName = Some ''Bob'',
     ci_publicKey = Some ''pk-bob'', ci_pid = Some ''pid-bob'', ci_sinceTs = Some 15 \<rparr>"

definition ex_info_bob :: GroupInfo where
  "ex_info_bob = ex_info\<lparr>gi_members :=
     [(''fp02'', \<lparr> mb_fingerprint = ''fp02'', mb_friendlyName = ''Bob'',
        mb_publicKey = Some ''pk-bob'', mb_currentPID = Some ''pid-bob'', mb_joinedAt = 2000,
        mb_role = RoleMember \<rparr>)]\<rparr>"


definition ex_chat_manager :: P2PManager where
  "ex_chat_manager = newManager\<lparr>
     contacts := [(''fp02'', (ex_contact ''pid-bob'' (Some ''fp02'') [''pid-bob''])\<lparr>c_conn := Some 7\<rparr>)],
     privateKey := Some 1, ecdhPrivateKey := Some 2, openConns := {7}\<rparr>"

definition ex_out :: ChatMessage where
  "ex_out = \<lparr> m_id = ''m1'', m_dir = DirSent, m_type = Some TypeText, m_content = Some ''secret'',
     m_name = None, m_tid = None, m_size = None, m_ts = 1000, m_status = Some Waiting,
     m_edited = False, m_deleted = False \<rparr>"

definition ex_incoming :: MessageData where
  "ex_incoming = \<lparr> d_id = Some ''m1'', d_ts = 1000, d_content = Some ''hi'', d_e2e = False,
     d_iv = None, d_ct = None, d_sig = None \<rparr>"

text \<open>
  The same manager just after \<open>sendMessage\<close>: the message \<open>m1\<close>, created at time 1000,
  has been sent and waits for its acknowledgment.
\<close>

definition ex_just_sent :: P2PManager where
  "ex_just_sent = ex_chat_manager\<lparr>chats := [(''fp02'', [ex_out\<lparr>m_status := Some Sent\<rparr>])]\<rparr>"



section \<open>Properties\<close>

subsection \<open>The signaling gate: the adaptive interval\<close>

lemma pow_cap: "3 \<le> c \<Longrightarrow> (40500::int) \<le> 1500 * 3 ^ min c 4"
proof -
  assume "3 \<le> c"
  then have "min c 4 = 3 \<or> min c 4 = 4" by (auto simp: min_def)
  then show ?thesis by auto
qed

text \<open>
  Claim C5. With a throttle count of 0 the interval is the base 1500 ms. With a throttle
  count \<open>c \<ge> 1\<close> and no decay due (the last throttle event is at most
  \<open>THROTTLE_DECAY\<close> old), the interval is \<open>min 15000 (1500 * 3 ^ min c 4)\<close> and the
  getter leaves the queue as it was; for \<open>c \<ge> 3\<close> that is the cap of 15000 ms.
\<close>

theorem currentInterval_policy:
  "(throttleCount q = 0 \<longrightarrow> fst (currentInterval now q) = 1500) \<and>
   (1 \<le> throttleCount q \<and> now - lastThrottleTs q \<le> THROTTLE_DECAY \<longrightarrow>
      fst (currentInterval now q) = min 15000 (1500 * 3 ^ min (throttleCount q) 4) \<and>
      snd (currentInterval now q) = q) \<and>
   (3 \<le> throttleCount q \<and> now - lastThrottleTs q \<le> THROTTLE_DECAY \<longrightarrow>
      fst (currentInterval now q) = 15000)"
proof (intro conjI impI)
  assume "throttleCount q = 0"
  then show "fst (currentInterval now q) = 1500"
    by (simp add: currentInterval_def BASE_INTERVAL_def)
next
  assume h: "1 \<le> throttleCount q \<and> now - lastThrottleTs q \<le> THROTTLE_DECAY"
  then show "fst (currentInterval now q) = min 15000 (1500 * 3 ^ min (throttleCount q) 4)"
    by (simp add: currentInterval_def BASE_INTERVAL_def THROTTLE_MULTIPLIER_def
        MAX_INTERVAL_def min.commute)
  from h show "snd (currentInterval now q) = q"
    by (simp add: currentInterval_def)
next
  assume h: "3 \<le> throttleCount q \<and> now - lastThrottleTs q \<le> THROTTLE_DECAY"
  then have "(40500::int) \<le> 1500 * 3 ^ min (throttleCount q) 4" using pow_cap by blast
  with h show "fst (currentInterval now q) = 15000"
    by (simp add: currentInterval_def BASE_INTERVAL_def THROTTLE_MULTIPLIER_def
        MAX_INTERVAL_def)
qed

text \<open>The policy at throttle counts 0, 1, 2 and 3, one second after the last throttle event.\<close>

theorem currentInterval_policy_witness:
  "throttleCount (newPeerQueue\<lparr>throttleCount := 0\<rparr>) = 0 \<and>
   fst (currentInterval 5000 (newPeerQueue\<lparr>throttleCount := 0\<rparr>)) = 1500 \<and>
   5000 - lastThrottleTs (newPeerQueue\<lparr>throttleCount := 1, lastThrottleTs := 4000\<rparr>)
     \<le> THROTTLE_DECAY \<and>
   fst (currentInterval 5000 (newPeerQueue\<lparr>throttleCount := 1, lastThrottleTs := 4000\<rparr>)) = 4500 \<and>
   fst (currentInterval 5000 (newPeerQueue\<lparr>throttleCount := 2, lastThrottleTs := 4000\<rparr>)) = 13500 \<and>
   fst (currentInterval 5000 (newPeerQueue\<lparr>throttleCount := 3, lastThrottleTs := 4000\<rparr>)) = 15000 \<and>
   fst (currentInterval 5000 (newPeerQueue\<lparr>throttleCount := 7, lastThrottleTs := 4000\<rparr>)) = 15000"
  using currentInterval_policy [of "newPeerQueue\<lparr>throttleCount := 0\<rparr>" 5000]
    currentInterval_policy [of "newPeerQueue\<lparr>throttleCount := 1, lastThrottleTs := 4000\<rparr>" 5000]
    currentInterval_policy [of "newPeerQueue\<lparr>throttleCount := 2, lastThrottleTs := 4000\<rparr>" 5000]
    currentInterval_policy [of "newPeerQueue\<lparr>throttleCount := 3, lastThrottleTs := 4000\<rparr>" 5000]
    currentInterval_policy [of "newPeerQueue\<lparr>throttleCount := 7, lastThrottleTs := 4000\<rparr>" 5000]
  by (simp add: newPeerQueue_def THROTTLE_DECAY_def)

subsection \<open>The signaling gate: network down\<close>

lemma currentInterval_fields:
  "queue (snd (currentInterval now q)) = queue q"
  "timer (snd (currentInterval now q)) = timer q"
  "networkDown (snd (currentInterval now q)) = networkDown q"
  "executed (snd (currentInterval now q)) = executed q"
  "lastCreate (snd (currentInterval now q)) = lastCreate q"
  "lastThrottleTs (snd (currentInterval now q)) = lastThrottleTs q"
  by (simp_all add: currentInterval_def Let_def)

lemma currentInterval_count: "throttleCount (snd (currentInterval now q)) \<le> throttleCount q"
  by (simp add: currentInterval_def Let_def)

lemma emitState_fields:
  "queue (emitState now q) = queue q"
  "timer (emitState now q) = timer q"
  "networkDown (emitState now q) = networkDown q"
  "executed (emitState now q) = executed q"
  "lastCreate (emitState now q) = lastCreate q"
  by (simp_all add: emitState_def currentInterval_fields)

lemma probeNetwork_fields:
  "queue (snd (probeNetwork now fetchOk q)) = queue q"
  "timer (snd (probeNetwork now fetchOk q)) = timer q"
  "networkDown (snd (probeNetwork now fetchOk q)) = networkDown q"
  "executed (snd (probeNetwork now fetchOk q)) = executed q"
  by (simp_all add: probeNetwork_def split: option.splits)

text \<open>The interval as a function of the throttle count left after the decay.\<close>

lemma currentInterval_by_count:
  "fst (currentInterval now q) =
     (if throttleCount (snd (currentInterval now q)) = 0 then 1500
      else min (1500 * 3 ^ min (throttleCount (snd (currentInterval now q))) 4) 15000)"
  by (simp add: currentInterval_def Let_def BASE_INTERVAL_def THROTTLE_MULTIPLIER_def
      MAX_INTERVAL_def)

lemma interval_mono:
  assumes "a \<le> b"
  shows "(if a = 0 then (1500::int) else min (1500 * 3 ^ min a 4) 15000)
         \<le> (if b = 0 then 1500 else min (1500 * 3 ^ min b 4) 15000)"
proof -
  define x :: int where "x = 1500 * 3 ^ min a 4"
  define y :: int where "y = 1500 * 3 ^ min b 4"
  have "(3::int) ^ min a 4 \<le> 3 ^ min b 4"
    using assms by (intro power_increasing) (auto simp: min_def)
  then have xy: "x \<le> y" by (simp add: x_def y_def)
  have "(1::int) \<le> 3 ^ min b 4" by simp
  then have y1: "1500 \<le> y" by (simp add: y_def)
  have "(if a = 0 then 1500 else min x 15000) \<le> (if b = 0 then 1500 else min y 15000)"
    using xy y1 assms by auto
  then show ?thesis by (simp only: x_def y_def)
qed

text \<open>With no new throttle event the interval never grows.\<close>

lemma currentInterval_mono:
  assumes "throttleCount q' \<le> throttleCount (snd (currentInterval now q))"
  shows "fst (currentInterval t q') \<le> fst (currentInterval now q)"
proof -
  have "throttleCount (snd (currentInterval t q')) \<le> throttleCount (snd (currentInterval now q))"
    using currentInterval_count [of t q'] assms by simp
  from interval_mono [OF this] show ?thesis
    by (simp only: currentInterval_by_count [symmetric])
qed

lemma flush_networkDown: "networkDown q \<Longrightarrow> flush now q = q"
  by (simp add: flush_def)

lemma flush_keeps_networkDown: "networkDown (flush now q) = networkDown q"
  by (simp add: flush_def Let_def split_def emitState_fields currentInterval_fields)

lemma flush_empty: "queue q = [] \<Longrightarrow> flush now q = q"
  by (simp add: flush_def)

lemma flush_ready:
  assumes "queue q \<noteq> []" and "\<not> networkDown q"
    and "fst (currentInterval now q) \<le> now - lastCreate q"
  shows "executed (flush now q) = executed q @ [fn (hd (queue q))] \<and>
         queue (flush now q) = tl (queue q)"
  using assms
  by (simp add: flush_def Let_def split_def emitState_fields currentInterval_fields)

lemma flush_wait:
  assumes "queue q \<noteq> []" and "\<not> networkDown q"
    and "now - lastCreate q < fst (currentInterval now q)"
  shows "flush now q =
           (snd (currentInterval now q))
             \<lparr>timer := (case timer q of
                          None \<Rightarrow> Some (lastCreate q + fst (currentInterval now q))
                        | Some due \<Rightarrow> Some due)\<rparr>"
  using assms
  by (cases "timer q")
     (simp_all add: flush_def Let_def split_def currentInterval_fields)

lemma timer_path:
  assumes "queue q \<noteq> []" and "\<not> networkDown q"
    and "now - lastCreate q < fst (currentInterval now q)"
    and "fst (currentInterval now q) \<le> t - lastCreate q"
  shows "executed (timerFired t (flush now q)) = executed q @ [fn (hd (queue q))] \<and>
         queue (timerFired t (flush now q)) = tl (queue q)"
proof -
  let ?w = "(flush now q)\<lparr>timer := None\<rparr>"
  have w: "?w = (snd (currentInterval now q))\<lparr>timer := None\<rparr>"
    using flush_wait [OF assms(1,2,3)] by simp
  have f: "queue ?w = queue q" "\<not> networkDown ?w" "executed ?w = executed q"
    "lastCreate ?w = lastCreate q" "throttleCount ?w = throttleCount (snd (currentInterval now q))"
    using assms(2) by (simp_all add: w currentInterval_fields)
  have "fst (currentInterval t ?w) \<le> fst (currentInterval now q)"
    by (rule currentInterval_mono) (simp add: f)
  with assms(4) f have "fst (currentInterval t ?w) \<le> t - lastCreate ?w" by simp
  from flush_ready [OF _ f(2) this] assms(1) f
  show ?thesis by (simp add: timerFired_def)
qed

lemma reportSignalingError_then_down:
  "networkDown (reportSignalingError_then now False q) \<and>
   queue (reportSignalingError_then now False q) = [] \<and>
   timer (reportSignalingError_then now False q) = None \<and>
   executed (reportSignalingError_then now False q) = executed q"
  by (simp add: reportSignalingError_then_def emitState_fields)

lemma reportSignalingError_then_up:
  "\<not> networkDown (reportSignalingError_then now True q) \<and>
   executed (reportSignalingError_then now True q) = executed q"
  by (simp add: reportSignalingError_then_def Let_def emitState_fields currentInterval_fields)

lemma reportSignalingError_down:
  assumes "\<not> fst (probeNetwork now fetchOk q)"
  shows "networkDown (reportSignalingError now fetchOk later q) \<and>
         queue (reportSignalingError now fetchOk later q) = [] \<and>
         timer (reportSignalingError now fetchOk later q) = None \<and>
         executed (reportSignalingError now fetchOk later q) = executed q"
proof -
  have "reportSignalingError now fetchOk later q =
        reportSignalingError_then later False (snd (probeNetwork now fetchOk q))"
    using assms by (simp add: reportSignalingError_def split_def)
  then show ?thesis
    using reportSignalingError_then_down [of later "snd (probeNetwork now fetchOk q)"]
    by (simp add: probeNetwork_fields)
qed

lemma reportSignalingError_up:
  assumes "fst (probeNetwork now fetchOk q)"
  shows "\<not> networkDown (reportSignalingError now fetchOk later q) \<and>
         executed (reportSignalingError now fetchOk later q) = executed q"
proof -
  have "reportSignalingError now fetchOk later q =
        reportSignalingError_then later True (snd (probeNetwork now fetchOk q))"
    using assms by (simp add: reportSignalingError_def split_def)
  then show ?thesis
    using reportSignalingError_then_up [of later "snd (probeNetwork now fetchOk q)"]
    by (simp add: probeNetwork_fields)
qed

lemma schedule_networkDown:
  assumes "networkDown q"
  shows "executed (schedule now e q) = executed q \<and> networkDown (schedule now e q) \<and>
         (priority e = Normal \<longrightarrow> queue (schedule now e q) = queue q @ [e])"
  using assms by (simp add: schedule_def flush_networkDown)

lemma successState_fields:
  "queue (successState now q) = queue q"
  "timer (successState now q) = timer q"
  "\<not> networkDown (successState now q)"
  "executed (successState now q) = executed q"
  "lastCreate (successState now q) = lastCreate q"
  by (simp_all add: successState_def Let_def emitState_fields)

lemma reportSignalingSuccess_up: "\<not> networkDown (reportSignalingSuccess now q)"
  by (simp add: reportSignalingSuccess_def flush_keeps_networkDown successState_fields)

text \<open>One step of a gate that is network-down.\<close>

lemma gateStep_down:
  assumes "networkDown q"
  shows "(networkDown (gateStep op q) \<longleftrightarrow> \<not> clearsNetworkDown op q) \<and>
         (executed (gateStep op q) \<noteq> executed q \<longrightarrow> (\<exists>t. op = ReportSignalingSuccess t))"
proof (cases op)
  case (Schedule now e)
  with schedule_networkDown [OF assms, of now e] show ?thesis by simp
next
  case (TimerFired now)
  with assms show ?thesis
    by (simp add: timerFired_def flush_networkDown split: option.splits)
next
  case CancelAll
  with assms show ?thesis by (simp add: cancelAll_def)
next
  case (ReportSignalingError now fetchOk later)
  with reportSignalingError_down [of now fetchOk q later] reportSignalingError_up [of now fetchOk q later]
  show ?thesis by (cases "fst (probeNetwork now fetchOk q)") simp_all
next
  case (ReportSignalingSuccess now)
  with reportSignalingSuccess_up [of now q] show ?thesis by simp
qed

lemma pausedRun_down:
  "networkDown q \<Longrightarrow> pausedRun ops q \<Longrightarrow>
     networkDown (gateRun ops q) \<and> executed (gateRun ops q) = executed q"
proof (induction ops arbitrary: q)
  case Nil
  then show ?case by simp
next
  case (Cons op ops)
  from Cons.prems have n: "\<not> clearsNetworkDown op q" and r: "pausedRun ops (gateStep op q)"
    by simp_all
  from gateStep_down [OF Cons.prems(1), of op] n
  have d: "networkDown (gateStep op q)" and e: "executed (gateStep op q) = executed q"
    by auto
  from Cons.IH [OF d r] e show ?case by simp
qed

text \<open>
  Claim C3, as the code has it. When the probe fails, \<open>reportSignalingError\<close> marks the
  gate network-down, empties the queue (the entries pending at that moment are dropped,
  not kept), cancels the pending timer and runs no callback. While the gate is
  network-down, \<open>flush\<close> changes nothing, a fired timer runs nothing and \<open>schedule\<close> only
  stores the new entry; a step clears the flag exactly when it is a success report or a
  failure report whose probe passes, only a success report can run a callback, and over
  any run of steps that do not clear the flag the gate stays network-down and nothing runs.
  \<open>reportSignalingSuccess\<close> clears the flag and flushes: with an empty queue nothing
  happens; otherwise, when the current interval has passed since the last creation, the
  first queued entry runs at once; when it has not, nothing runs yet, a timer is set for
  the remaining wait unless one is pending, and the first entry runs when a timer fires
  after the wait.
\<close>

theorem network_down_pauses_queue:
  "(\<not> fst (probeNetwork now fetchOk q) \<longrightarrow>
      networkDown (reportSignalingError now fetchOk later q) \<and>
      queue (reportSignalingError now fetchOk later q) = [] \<and>
      timer (reportSignalingError now fetchOk later q) = None \<and>
      executed (reportSignalingError now fetchOk later q) = executed q) \<and>
   (networkDown q \<longrightarrow>
      flush now q = q \<and>
      timerFired now q = q\<lparr>timer := None\<rparr> \<and>
      executed (schedule now e q) = executed q \<and>
      networkDown (schedule now e q) \<and>
      (priority e = Normal \<longrightarrow> queue (schedule now e q) = queue q @ [e]) \<and>
      (networkDown (gateStep op q) \<longleftrightarrow> \<not> clearsNetworkDown op q) \<and>
      (executed (gateStep op q) \<noteq> executed q \<longrightarrow> (\<exists>t. op = ReportSignalingSuccess t)) \<and>
      (pausedRun ops q \<longrightarrow>
         networkDown (gateRun ops q) \<and> executed (gateRun ops q) = executed q)) \<and>
   \<not> networkDown (reportSignalingSuccess now q) \<and>
   (fst (probeNetwork now fetchOk q) \<longrightarrow>
      \<not> networkDown (reportSignalingError now fetchOk later q) \<and>
      executed (reportSignalingError now fetchOk later q) = executed q) \<and>
   (queue q = [] \<longrightarrow>
      executed (reportSignalingSuccess now q) = executed q \<and>
      queue (reportSignalingSuccess now q) = []) \<and>
   (queue q \<noteq> [] \<and> fst (currentInterval now (successState now q)) \<le> now - lastCreate q \<longrightarrow>
      executed (reportSignalingSuccess now q) = executed q @ [fn (hd (queue q))] \<and>
      queue (reportSignalingSuccess now q) = tl (queue q)) \<and>
   (queue q \<noteq> [] \<and> now - lastCreate q < fst (currentInterval now (successState now q)) \<longrightarrow>
      executed (reportSignalingSuccess now q) = executed q \<and>
      queue (reportSignalingSuccess now q) = queue q \<and>
      timer (reportSignalingSuccess now q) =
        (case timer q of
           None \<Rightarrow> Some (lastCreate q + fst (currentInterval now (successState now q)))
         | Some due \<Rightarrow> Some due) \<and>
      (fst (currentInterval now (successState now q)) \<le> t - lastCreate q \<longrightarrow>
         executed (timerFired t (reportSignalingSuccess now q)) = executed q @ [fn (hd (queue q))] \<and>
         queue (timerFired t (reportSignalingSuccess now q)) = tl (queue q)))"
proof (intro conjI impI)
  assume "\<not> fst (probeNetwork now fetchOk q)"
  from reportSignalingError_down [OF this]
  show "networkDown (reportSignalingError now fetchOk later q)"
    and "queue (reportSignalingError now fetchOk later q) = []"
    and "timer (reportSignalingError now fetchOk later q) = None"
    and "executed (reportSignalingError now fetchOk later q) = executed q"
    by simp_all
next
  assume d: "networkDown q"
  then show "flush now q = q" by (rule flush_networkDown)
  from d show "timerFired now q = q\<lparr>timer := None\<rparr>"
    by (simp add: timerFired_def flush_networkDown)
  from schedule_networkDown [OF d, of now e]
  show "executed (schedule now e q) = executed q" and "networkDown (schedule now e q)"
    by simp_all
  from gateStep_down [OF d, of op]
  show "networkDown (gateStep op q) \<longleftrightarrow> \<not> clearsNetworkDown op q" by simp
  {
    assume "priority e = Normal"
    with schedule_networkDown [OF d, of now e]
    show "queue (schedule now e q) = queue q @ [e]" by simp
  }
  {
    assume "executed (gateStep op q) \<noteq> executed q"
    with gateStep_down [OF d, of op]
    show "\<exists>t. op = ReportSignalingSuccess t" by simp
  }
  {
    assume "pausedRun ops q"
    from pausedRun_down [OF d this]
    show "networkDown (gateRun ops q)" and "executed (gateRun ops q) = executed q"
      by simp_all
  }
next
  show "\<not> networkDown (reportSignalingSuccess now q)" by (rule reportSignalingSuccess_up)
next
  assume "fst (probeNetwork now fetchOk q)"
  from reportSignalingError_up [OF this]
  show "\<not> networkDown (reportSignalingError now fetchOk later q)"
    and "executed (reportSignalingError now fetchOk later q) = executed q"
    by simp_all
next
  assume "queue q = []"
  then show "executed (reportSignalingSuccess now q) = executed q"
    and "queue (reportSignalingSuccess now q) = []"
    by (simp_all add: reportSignalingSuccess_def flush_empty successState_fields)
next
  assume a: "queue q \<noteq> [] \<and> fst (currentInterval now (successState now q)) \<le> now - lastCreate q"
  then have "fst (currentInterval now (successState now q)) \<le> now - lastCreate (successState now q)"
    by (simp add: successState_fields)
  from flush_ready [OF _ successState_fields(3) this] a
  show "executed (reportSignalingSuccess now q) = executed q @ [fn (hd (queue q))]"
    and "queue (reportSignalingSuccess now q) = tl (queue q)"
    by (simp_all add: reportSignalingSuccess_def successState_fields)
next
  assume a: "queue q \<noteq> [] \<and> now - lastCreate q < fst (currentInterval now (successState now q))"
  let ?s = "successState now q"
  have ne: "queue ?s \<noteq> []" using a by (simp add: successState_fields)
  have w: "now - lastCreate ?s < fst (currentInterval now ?s)"
    using a by (simp add: successState_fields)
  note fw = flush_wait [OF ne successState_fields(3) w]
  show "executed (reportSignalingSuccess now q) = executed q"
    and "queue (reportSignalingSuccess now q) = queue q"
    and "timer (reportSignalingSuccess now q) =
        (case timer q of
           None \<Rightarrow> Some (lastCreate q + fst (currentInterval now (successState now q)))
         | Some due \<Rightarrow> Some due)"
    by (cases "timer q";
        simp add: reportSignalingSuccess_def fw currentInterval_fields successState_fields)+
  {
    assume "fst (currentInterval now (successState now q)) \<le> t - lastCreate q"
    then have "fst (currentInterval now ?s) \<le> t - lastCreate ?s"
      by (simp add: successState_fields)
    from timer_path [OF ne successState_fields(3) w this]
    show "executed (timerFired t (reportSignalingSuccess now q)) = executed q @ [fn (hd (queue q))]"
      and "queue (timerFired t (reportSignalingSuccess now q)) = tl (queue q)"
      by (simp_all add: reportSignalingSuccess_def successState_fields)
  }
qed

theorem network_down_pauses_queue_witness:
  "\<not> fst (probeNetwork 100000 False ex_pending) \<and>
   networkDown (reportSignalingError 100000 False 100200 ex_pending) \<and>
   queue (reportSignalingError 100000 False 100200 ex_pending) = [] \<and>
   timer (reportSignalingError 100000 False 100200 ex_pending) = None \<and>
   networkDown ex_down \<and>
   flush 150000 ex_down = ex_down \<and>
   priority ex_entry8 = Normal \<and>
   queue (schedule 150000 ex_entry8 ex_down) = [ex_entry8] \<and>
   executed (schedule 150000 ex_entry8 ex_down) = [] \<and>
   \<not> clearsNetworkDown (Schedule 150000 ex_entry8) ex_down \<and>
   networkDown (gateStep (Schedule 150000 ex_entry8) ex_down) \<and>
   pausedRun [Schedule 150000 ex_entry8, TimerFired 151000, CancelAll,
     ReportSignalingError 152000 False 152200] ex_down \<and>
   networkDown (gateRun [Schedule 150000 ex_entry8, TimerFired 151000, CancelAll,
     ReportSignalingError 152000 False 152200] ex_down) \<and>
   executed (gateRun [Schedule 150000 ex_entry8, TimerFired 151000, CancelAll,
     ReportSignalingError 152000 False 152200] ex_down) = [] \<and>
   networkDown ex_down_queued \<and>
   executed (gateStep (ReportSignalingSuccess 200000) ex_down_queued) \<noteq> executed ex_down_queued \<and>
   fst (probeNetwork 150000 False ex_down_probe_cached) \<and>
   \<not> networkDown (reportSignalingError 150000 False 150200 ex_down_probe_cached) \<and>
   queue ex_down = [] \<and>
   executed (reportSignalingSuccess 200000 ex_down) = [] \<and>
   queue ex_down_queued \<noteq> [] \<and>
   fst (currentInterval 200000 (successState 200000 ex_down_queued))
     \<le> 200000 - lastCreate ex_down_queued \<and>
   executed (reportSignalingSuccess 200000 ex_down_queued) = [8] \<and>
   queue (reportSignalingSuccess 200000 ex_down_queued) = [] \<and>
   \<not> networkDown (reportSignalingSuccess 200000 ex_down_queued) \<and>
   queue ex_down_recent \<noteq> [] \<and>
   200000 - lastCreate ex_down_recent
     < fst (currentInterval 200000 (successState 200000 ex_down_recent)) \<and>
   fst (currentInterval 200000 (successState 200000 ex_down_recent))
     \<le> 200500 - lastCreate ex_down_recent \<and>
   executed (reportSignalingSuccess 200000 ex_down_recent) = [] \<and>
   queue (reportSignalingSuccess 200000 ex_down_recent) = [ex_entry8] \<and>
   timer (reportSignalingSuccess 200000 ex_down_recent) = Some 200500 \<and>
   executed (timerFired 200500 (reportSignalingSuccess 200000 ex_down_recent)) = [8] \<and>
   queue (timerFired 200500 (reportSignalingSuccess 200000 ex_down_recent)) = []"
proof -
  let ?ops = "[Schedule 150000 ex_entry8, TimerFired 151000, CancelAll,
     ReportSignalingError 152000 False 152200]"
  have p: "\<not> fst (probeNetwork 100000 False ex_pending)"
    by (simp add: probeNetwork_def ex_pending_def newPeerQueue_def)
  have d: "networkDown ex_down" "queue ex_down = []" "executed ex_down = []"
    by (simp_all add: ex_down_def newPeerQueue_def)
  have e: "priority ex_entry8 = Normal" "fn ex_entry8 = 8"
    by (simp_all add: ex_entry8_def)
  have c: "\<not> clearsNetworkDown (Schedule 150000 ex_entry8) ex_down" by simp
  have pr: "pausedRun ?ops ex_down"
    by (simp add: ex_down_def newPeerQueue_def ex_entry8_def schedule_def flush_def
        timerFired_def probeNetwork_def cancelAll_def PROBE_COOLDOWN_def Let_def)
  have dq: "networkDown ex_down_queued" "executed ex_down_queued = []"
    "queue ex_down_queued = [ex_entry8]" "timer ex_down_queued = None"
    by (simp_all add: ex_down_queued_def newPeerQueue_def)
  have iq: "fst (currentInterval 200000 (successState 200000 ex_down_queued)) = 1500"
    by (simp add: currentInterval_def successState_def emitState_def ex_down_queued_def
        newPeerQueue_def BASE_INTERVAL_def Let_def)
  have lq: "lastCreate ex_down_queued = 99000"
    by (simp add: ex_down_queued_def newPeerQueue_def)
  have pc: "fst (probeNetwork 150000 False ex_down_probe_cached)"
    by (simp add: probeNetwork_def ex_down_probe_cached_def ex_down_queued_def newPeerQueue_def
        PROBE_COOLDOWN_def)
  have dr: "executed ex_down_recent = []" "queue ex_down_recent = [ex_entry8]"
    "timer ex_down_recent = None" "lastCreate ex_down_recent = 199000"
    by (simp_all add: ex_down_recent_def newPeerQueue_def)
  have ir: "fst (currentInterval 200000 (successState 200000 ex_down_recent)) = 1500"
    by (simp add: currentInterval_def successState_def emitState_def ex_down_recent_def
        newPeerQueue_def BASE_INTERVAL_def Let_def)
  note t1 = network_down_pauses_queue [where now = 100000 and fetchOk = False and later = 100200
        and q = ex_pending and e = ex_entry8]
  note t2 = network_down_pauses_queue [where now = 150000 and fetchOk = False and later = 150200
        and q = ex_down and e = ex_entry8 and op = "Schedule 150000 ex_entry8" and ops = ?ops]
  note t3 = network_down_pauses_queue [where now = 200000 and fetchOk = False and later = 200200
        and q = ex_down_queued and e = ex_entry8 and op = "ReportSignalingSuccess 200000"]
  note t4 = network_down_pauses_queue [where now = 150000 and fetchOk = False and later = 150200
        and q = ex_down_probe_cached]
  note t5 = network_down_pauses_queue [where now = 200000 and q = ex_down]
  note t6 = network_down_pauses_queue [where now = 200000 and q = ex_down_recent and t = 200500]
  have a1: "networkDown (reportSignalingError 100000 False 100200 ex_pending) \<and>
   queue (reportSignalingError 100000 False 100200 ex_pending) = [] \<and>
   timer (reportSignalingError 100000 False 100200 ex_pending) = None"
    using p t1 by blast
  have a2: "flush 150000 ex_down = ex_down \<and>
   queue (schedule 150000 ex_entry8 ex_down) = [ex_entry8] \<and>
   executed (schedule 150000 ex_entry8 ex_down) = [] \<and>
   networkDown (gateStep (Schedule 150000 ex_entry8) ex_down) \<and>
   networkDown (gateRun ?ops ex_down) \<and>
   executed (gateRun ?ops ex_down) = []"
    using d e c pr t2 by simp
  have a3: "executed (reportSignalingSuccess 200000 ex_down_queued) = [8] \<and>
   queue (reportSignalingSuccess 200000 ex_down_queued) = [] \<and>
   \<not> networkDown (reportSignalingSuccess 200000 ex_down_queued)"
    using dq e iq lq t3 by simp
  then have a3': "executed (gateStep (ReportSignalingSuccess 200000) ex_down_queued)
      \<noteq> executed ex_down_queued"
    using dq by simp
  have a4: "\<not> networkDown (reportSignalingError 150000 False 150200 ex_down_probe_cached)"
    using pc t4 by blast
  have a5: "executed (reportSignalingSuccess 200000 ex_down) = []"
    using d t5 by simp
  have a6: "executed (reportSignalingSuccess 200000 ex_down_recent) = [] \<and>
   queue (reportSignalingSuccess 200000 ex_down_recent) = [ex_entry8] \<and>
   timer (reportSignalingSuccess 200000 ex_down_recent) = Some 200500 \<and>
   executed (timerFired 200500 (reportSignalingSuccess 200000 ex_down_recent)) = [8] \<and>
   queue (timerFired 200500 (reportSignalingSuccess 200000 ex_down_recent)) = []"
    using dr e ir t6 by simp
  show ?thesis
    using p d e c pr dq iq lq pc dr ir a1 a2 a3 a3' a4 a5 a6 by simp
qed

text \<open>
  Claim C3 as stated fails: entry 7 is pending when the failure is reported and the probe
  fails; it is no longer in the queue afterwards, and the success report at time 200000
  runs nothing.
\<close>

theorem pending_entries_dropped_counterexample:
  "queue ex_pending = [ex_entry7] \<and>
   \<not> fst (probeNetwork 100000 False ex_pending) \<and>
   queue (reportSignalingError 100000 False 100200 ex_pending) = [] \<and>
   executed (reportSignalingSuccess 200000 (reportSignalingError 100000 False 100200 ex_pending)) = [] \<and>
   queue (reportSignalingSuccess 200000 (reportSignalingError 100000 False 100200 ex_pending)) = []"
  by (simp add: ex_pending_def newPeerQueue_def probeNetwork_def reportSignalingError_def
      reportSignalingError_then_def reportSignalingSuccess_def successState_def emitState_def
      currentInterval_def flush_def Let_def)

subsection \<open>The fingerprint\<close>

lemma hexDigit_hex: "d < 16 \<Longrightarrow> isLowerHex (hexDigit d)"
proof -
  assume "d < 16"
  then have "d \<in> {0,1,2,3,4,5,6,7,8,9,10,11,12,13,14,15}" by simp arith
  then show ?thesis by (auto simp: hexDigit_def isLowerHex_def)
qed

lemma byte_hex: "length (padStart 2 (CHR ''0'') (toString16 b)) = 2 \<and>
   (\<forall>c \<in> set (padStart 2 (CHR ''0'') (toString16 b)). isLowerHex c)"
proof -
  have "unat b < 256" using unsigned_less [of b] by simp
  then have "unat b div 16 < 16" by simp
  moreover have "unat b mod 16 < 16" by simp
  moreover have "isLowerHex (CHR ''0'')" by (simp add: isLowerHex_def)
  ultimately show ?thesis
    by (auto simp: padStart_def toString16_def hexDigit_hex)
qed

lemma concat_hex:
  "length (concat (map (\<lambda>b. padStart 2 (CHR ''0'') (toString16 b)) bs)) = 2 * length bs \<and>
   (\<forall>c \<in> set (concat (map (\<lambda>b. padStart 2 (CHR ''0'') (toString16 b)) bs)). isLowerHex c)"
  using byte_hex by (induction bs) auto

text \<open>
  Claim C10. \<open>computeFingerprint\<close> always returns a string. When \<open>crypto.subtle\<close> is
  available and the digest returns a hash \<open>h\<close> of at least 8 bytes (SHA-256 gives 32), the
  result is the two-digit lower-case hex rendering of the first 8 bytes of \<open>h\<close>: 16
  characters, each a lower-case hex digit; being a function of the key and the digest, the
  same input gives the same output. When \<open>crypto.subtle\<close> is missing or the digest throws,
  the result is the empty string.
\<close>

theorem computeFingerprint_wellformed:
  "(subtle \<and> digest (TextEncoder_encode pk) = Some h \<and> 8 \<le> length h \<longrightarrow>
      computeFingerprint subtle digest pk =
        concat (map (\<lambda>b. padStart 2 (CHR ''0'') (toString16 b)) (take 8 h)) \<and>
      length (computeFingerprint subtle digest pk) = 16 \<and>
      (\<forall>c \<in> set (computeFingerprint subtle digest pk). isLowerHex c)) \<and>
   (\<not> subtle \<or> digest (TextEncoder_encode pk) = None \<longrightarrow>
      computeFingerprint subtle digest pk = '''')"
proof (intro conjI impI)
  assume a: "subtle \<and> digest (TextEncoder_encode pk) = Some h \<and> 8 \<le> length h"
  then show e: "computeFingerprint subtle digest pk =
        concat (map (\<lambda>b. padStart 2 (CHR ''0'') (toString16 b)) (take 8 h))"
    by (simp add: computeFingerprint_def)
  from a have l: "length (take 8 h) = 8" by simp
  from concat_hex [of "take 8 h"] l e
  show "length (computeFingerprint subtle digest pk) = 16"
    and "\<forall>c \<in> set (computeFingerprint subtle digest pk). isLowerHex c"
    by simp_all
next
  assume "\<not> subtle \<or> digest (TextEncoder_encode pk) = None"
  then show "computeFingerprint subtle digest pk = ''''"
    by (auto simp: computeFingerprint_def)
qed

lemma ex_fingerprint: "computeFingerprint True ex_digest ''MFkwEwYH'' = ''082d52779cc1e60b''"
  by code_simp

text \<open>
  The theorem at the key \<open>MFkwEwYH\<close>: with the example digest, without
  \<open>crypto.subtle\<close>, and with a digest that throws.
\<close>

theorem computeFingerprint_wellformed_witness:
  "ex_digest (TextEncoder_encode ''MFkwEwYH'') \<noteq> None \<and>
   length (computeFingerprint True ex_digest ''MFkwEwYH'') = 16 \<and>
   list_all isLowerHex (computeFingerprint True ex_digest ''MFkwEwYH'') \<and>
   computeFingerprint True ex_digest ''MFkwEwYH'' = ''082d52779cc1e60b'' \<and>
   computeFingerprint False ex_digest ''MFkwEwYH'' = '''' \<and>
   computeFingerprint True ex_digest_throws ''MFkwEwYH'' = ''''"
proof -
  have d: "ex_digest (TextEncoder_encode ''MFkwEwYH'') =
           Some (map (\<lambda>i. of_nat (i * 37 + 8)) [0..<32])"
    by (simp add: ex_digest_def TextEncoder_encode_def)
  have t: "ex_digest_throws (TextEncoder_encode ''MFkwEwYH'') = None"
    by (simp add: ex_digest_throws_def)
  show ?thesis
    using d t ex_fingerprint
      computeFingerprint_wellformed [of True ex_digest "''MFkwEwYH''"
        "map (\<lambda>i. of_nat (i * 37 + 8)) [0..<32]"]
      computeFingerprint_wellformed [of False ex_digest "''MFkwEwYH''" "[]"]
      computeFingerprint_wellformed [of True ex_digest_throws "''MFkwEwYH''" "[]"]
    by (simp add: list_all_iff)
qed

subsection \<open>The registry merge\<close>














lemma ex_merge:
  "fst (nsMergeRegistry ex_extractDiscUUID ''peerns-1-2-3-4-aa'' 99 True ex_registry []
      ex_broadcast_rejoined) =
     [(''peerns-1-2-3-4-aa'', ex_me), (''peerns-1-2-3-4-dd'', ex_dan), (''peerns-1-2-3-4-ee'', ex_cat)]"
  by (simp add: nsMergeRegistry_def mergePeer_def ex_registry_def ex_broadcast_rejoined_def ex_me_def
      ex_gone_def ex_dan_def ex_cat_def truthy_def Let_def)

lemma ex_merge_stale:
  "fst (nsMergeRegistry ex_extractDiscUUID ''peerns-1-2-3-4-ff'' 99 True ex_registry [] ex_broadcast) =
     [(''peerns-1-2-3-4-aa'', \<lparr> pi_discoveryID = ''peerns-1-2-3-4-aa'', pi_friendlyName = ''Me'',
          pi_lastSeen = 99, pi_isMe = False, pi_conn = None, pi_knownPID = None,
          pi_publicKey = Some ''KA'' \<rparr>),
      (''peerns-1-2-3-4-cc'', \<lparr> pi_discoveryID = ''peerns-1-2-3-4-cc'', pi_friendlyName = ''New'',
          pi_lastSeen = 99, pi_isMe = False, pi_conn = None, pi_knownPID = None,
          pi_publicKey = Some ''KC'' \<rparr>)]"
  by (simp add: nsMergeRegistry_def mergePeer_def ex_registry_def ex_broadcast_def ex_me_def
      ex_gone_def truthy_def Let_def)


text \<open>
  Claim C6 as stated fails. The broadcast lists Cat under the ids ending in \<open>cc\<close> and
  \<open>ee\<close> with one public key: the element \<open>cc\<close> of the broadcast has no entry in the
  new registry. And when the member's current discovery id (here the id ending in
  \<open>ff\<close>, after the discovery UUID was regenerated) is not the id of its self-entry
  (ending in \<open>aa\<close>) and the broadcast lists the self-entry's id, the entry marked
  \<open>isMe\<close> is replaced by an entry built from the broadcast, and no entry marked
  \<open>isMe\<close> is left.
\<close>

theorem broadcast_element_dropped_counterexample:
  "\<lparr> p_discoveryID = ''peerns-1-2-3-4-cc'', p_friendlyname = ''Cat'', p_publicKey = Some ''KC'' \<rparr>
     \<in> set ex_broadcast_rejoined \<and>
   ''peerns-1-2-3-4-cc'' \<noteq> ''peerns-1-2-3-4-aa'' \<and>
   map_of (fst (nsMergeRegistry ex_extractDiscUUID ''peerns-1-2-3-4-aa'' 99 True ex_registry []
      ex_broadcast_rejoined)) ''peerns-1-2-3-4-cc'' = None \<and>
   List.find pi_isMe (map snd ex_registry) = Some ex_me \<and>
   map_of (fst (nsMergeRegistry ex_extractDiscUUID ''peerns-1-2-3-4-ff'' 99 True ex_registry []
      ex_broadcast)) ''peerns-1-2-3-4-aa'' = Some (ex_me\<lparr>pi_lastSeen := 99, pi_isMe := False\<rparr>) \<and>
   List.find pi_isMe (map snd (fst (nsMergeRegistry ex_extractDiscUUID ''peerns-1-2-3-4-ff'' 99 True
      ex_registry [] ex_broadcast))) = None"
  by (simp add: ex_merge ex_merge_stale) (simp add: ex_broadcast_rejoined_def ex_registry_def ex_me_def)

subsection \<open>Contact migration\<close>

lemma remdups_absorb: "set ys \<subseteq> set zs \<Longrightarrow> distinct zs \<Longrightarrow> remdups (ys @ zs) = zs"
  by (induction ys) auto

lemma setOf_idem: "setOf (setOf (ns @ ks) @ ks) = setOf (ns @ ks)"
proof -
  have "remdups (rev ks @ remdups (rev ks @ rev ns)) = remdups (rev ks @ rev ns)"
    by (rule remdups_absorb) auto
  then show ?thesis by (simp add: setOf_def)
qed

lemma setOf_idem_Nil: "setOf (setOf ks @ ks) = setOf ks"
  using setOf_idem [of "[]" ks] by simp

lemma mergeContact_idem: "mergeContact existing (mergeContact existing n) = mergeContact existing n"
  by (cases "c_knownPIDs existing"; cases "c_knownPIDs n")
     (simp_all add: mergeContact_def Let_def setOf_idem setOf_idem_Nil)

lemma merged_ids:
  "m \<in> set oldMsgs \<Longrightarrow> m_id m \<in> set (map m_id (mergeChats newMsgs oldMsgs))"
  by (cases "m_id m \<in> set (map m_id newMsgs)") (auto simp: mergeChats_def)

lemma mergeChats_idem: "mergeChats (mergeChats newMsgs oldMsgs) oldMsgs = mergeChats newMsgs oldMsgs"
proof -
  have "filter (\<lambda>m. m_id m \<notin> set (map m_id (mergeChats newMsgs oldMsgs))) oldMsgs = []"
    using merged_ids [of _ oldMsgs newMsgs] by (simp add: filter_empty_conv)
  then have "mergeChats (mergeChats newMsgs oldMsgs) oldMsgs =
             sort_key m_ts (mergeChats newMsgs oldMsgs)"
    by (simp add: mergeChats_def)
  also have "\<dots> = mergeChats newMsgs oldMsgs"
    by (rule sort_key_id_if_sorted) (simp add: mergeChats_def)
  finally show ?thesis .
qed

lemma migrateContact_removes_old:
  assumes "oldKey \<noteq> newKey" and "map_of (contacts mgr) oldKey = Some existing"
  shows "map_of (contacts (migrateContact oldKey newKey mgr)) oldKey = None"
  using assms by (simp add: migrateContact_def dropOldContact_def delete_conv')

text \<open>
  Claim C7. A second \<open>migrateContact\<close> with the same keys returns the state of the first
  unchanged: contacts, chats, shared keys, PID map, failure counters and dispatched events.
  The merges of the first call are idempotent too: merging the old record, the old PIDs or
  the old chat into the merged result again gives that result.
\<close>

theorem migrateContact_idempotent:
  "migrateContact oldKey newKey (migrateContact oldKey newKey mgr) = migrateContact oldKey newKey mgr \<and>
   mergeContact existing (mergeContact existing n) = mergeContact existing n \<and>
   setOf (setOf (ns @ ks) @ ks) = setOf (ns @ ks) \<and>
   mergeChats (mergeChats newMsgs oldMsgs) oldMsgs = mergeChats newMsgs oldMsgs"
proof (intro conjI)
  show "migrateContact oldKey newKey (migrateContact oldKey newKey mgr) = migrateContact oldKey newKey mgr"
  proof (cases "oldKey = newKey")
    case True
    then show ?thesis by (simp add: migrateContact_def)
  next
    case False
    show ?thesis
    proof (cases "map_of (contacts mgr) oldKey")
      case None
      then show ?thesis by (simp add: migrateContact_def)
    next
      case (Some e)
      from migrateContact_removes_old [OF False Some]
      have "map_of (contacts (migrateContact oldKey newKey mgr)) oldKey = None" .
      then show ?thesis
        by (simp add: migrateContact_def [of oldKey newKey "migrateContact oldKey newKey mgr"])
    qed
  qed
next
  show "mergeContact existing (mergeContact existing n) = mergeContact existing n"
    by (rule mergeContact_idem)
next
  show "setOf (setOf (ns @ ks) @ ks) = setOf (ns @ ks)" by (rule setOf_idem)
next
  show "mergeChats (mergeChats newMsgs oldMsgs) oldMsgs = mergeChats newMsgs oldMsgs"
    by (rule mergeChats_idem)
qed

lemma ex_migrated:
  "contacts (migrateContact ''pid-old'' ''fp01'' ex_two_records) =
     [(''fp01'', ex_contact ''pid-new'' (Some ''fp01'') [''pid-old'', ''pid-new''])] \<and>
   map (map m_id \<circ> snd) (chats (migrateContact ''pid-old'' ''fp01'' ex_two_records)) =
     [[''m1'', ''m2'', ''m3'']] \<and>
   map fst (sharedKeys (migrateContact ''pid-old'' ''fp01'' ex_two_records)) = [''fp01''] \<and>
   pidToFP (migrateContact ''pid-old'' ''fp01'' ex_two_records) =
     [(''pid-old'', ''fp01''), (''pid-new'', ''fp01'')] \<and>
   connectFailures (migrateContact ''pid-old'' ''fp01'' ex_two_records) = [] \<and>
   events (migrateContact ''pid-old'' ''fp01'' ex_two_records) =
     [Event_contact_migrated ''pid-old'' ''fp01'']"
  by (simp add: migrateContact_def dropOldContact_def migratePIDs_def mapPIDs_def
      migrateSharedKey_def migrateChats_def migrateRecord_def mergeContact_def mergeChats_def
      setOf_def truthy_def ex_two_records_def ex_contact_def ex_msg_def newManager_def)

text \<open>
  The theorem at the example: the first call merges the two records (one contact, three
  messages, both PIDs mapped to the fingerprint, one event); the second changes nothing.
\<close>

theorem migrateContact_idempotent_witness:
  "events (migrateContact ''pid-old'' ''fp01'' ex_two_records) =
     [Event_contact_migrated ''pid-old'' ''fp01''] \<and>
   map (map m_id \<circ> snd) (chats (migrateContact ''pid-old'' ''fp01'' ex_two_records)) =
     [[''m1'', ''m2'', ''m3'']] \<and>
   migrateContact ''pid-old'' ''fp01'' (migrateContact ''pid-old'' ''fp01'' ex_two_records) =
     migrateContact ''pid-old'' ''fp01'' ex_two_records"
  using ex_migrated
    migrateContact_idempotent [of "''pid-old''" "''fp01''" ex_two_records
      "ex_contact ''pid-new'' None [''pid-old'', ''pid-new'']"
      "ex_contact ''pid-old'' (Some ''fp01'') [''pid-old'']" "[]" "[]" "[]" "[]"]
  by blast

subsection \<open>The rendezvous exchange\<close>

lemma rvzUpdateContact_frame:
  "rvzUpdateContact d k mgr = Some mgr1 \<Longrightarrow>
     sent mgr1 = sent mgr \<and> rvzRepliedConns mgr1 = rvzRepliedConns mgr \<and> openConns mgr1 = openConns mgr"
  by (auto simp: rvzUpdateContact_def split: option.splits if_splits)

lemma rvzReconnect_frame:
  "sent (rvzReconnect d k mgr) = sent mgr \<and> rvzRepliedConns (rvzReconnect d k mgr) = rvzRepliedConns mgr"
  by (simp add: rvzReconnect_def Let_def split: option.splits prod.splits)

lemma rvzReplyOnce_cases:
  assumes "rvzReplyOnce crypto now conn mgr = (mgr2, ok)"
  shows "(sent mgr2 = sent mgr \<and>
            (rvzRepliedConns mgr2 = rvzRepliedConns mgr \<or>
             conn \<notin> rvzRepliedConns mgr \<and> rvzRepliedConns mgr2 = insert conn (rvzRepliedConns mgr))) \<or>
         (conn \<in> openConns mgr \<and> conn \<notin> rvzRepliedConns mgr \<and>
            rvzRepliedConns mgr2 = insert conn (rvzRepliedConns mgr) \<and>
            (\<exists>w. isRvzExchange w \<and> sent mgr2 = sent mgr @ [(conn, w)]))"
  using assms
  by (auto simp: rvzReplyOnce_def Let_def send_def split: option.splits if_splits)

lemma rvzHandleExchange_cases:
  "(sent (rvzHandleExchange crypto now d conn mgr) = sent mgr \<and>
      (rvzRepliedConns (rvzHandleExchange crypto now d conn mgr) = rvzRepliedConns mgr \<or>
       conn \<notin> rvzRepliedConns mgr \<and>
       rvzRepliedConns (rvzHandleExchange crypto now d conn mgr) = insert conn (rvzRepliedConns mgr))) \<or>
   (conn \<in> openConns mgr \<and> conn \<notin> rvzRepliedConns mgr \<and>
      rvzRepliedConns (rvzHandleExchange crypto now d conn mgr) = insert conn (rvzRepliedConns mgr) \<and>
      (\<exists>w. isRvzExchange w \<and> sent (rvzHandleExchange crypto now d conn mgr) = sent mgr @ [(conn, w)]))"
proof (cases "rvzVerified crypto d")
  case False
  then show ?thesis by (simp add: rvzHandleExchange_def)
next
  case True
  show ?thesis
  proof (cases "rvzUpdateContact d (rvzContactKey d mgr) mgr")
    case None
    with True show ?thesis by (simp add: rvzHandleExchange_def)
  next
    case (Some mgr1)
    note f = rvzUpdateContact_frame [OF Some]
    obtain mgr2 ok where r: "rvzReplyOnce crypto now conn mgr1 = (mgr2, ok)"
      by (cases "rvzReplyOnce crypto now conn mgr1")
    have h: "rvzHandleExchange crypto now d conn mgr =
             (if ok then rvzReconnect d (rvzContactKey d mgr) mgr2 else mgr2)"
      using True Some r by (simp add: rvzHandleExchange_def)
    from rvzReplyOnce_cases [OF r] f
    show ?thesis
      unfolding h using rvzReconnect_frame [of d "rvzContactKey d mgr" mgr2]
      by (cases ok) auto
  qed
qed

lemma rvzReplies_append:
  "sent mgr' = sent mgr @ [(conn, w)] \<Longrightarrow> isRvzExchange w \<Longrightarrow>
     rvzReplies c mgr' = rvzReplies c mgr + (if c = conn then 1 else 0)"
  by (simp add: rvzReplies_def)

lemma rvzReplies_same: "sent mgr' = sent mgr \<Longrightarrow> rvzReplies c mgr' = rvzReplies c mgr"
  by (simp add: rvzReplies_def)

lemma rvzHandleExchange_inv:
  assumes "\<forall>c. rvzReplies c mgr \<le> (if c \<in> rvzRepliedConns mgr then 1 else 0)"
  shows "\<forall>c. rvzReplies c (rvzHandleExchange crypto now d conn mgr)
              \<le> (if c \<in> rvzRepliedConns (rvzHandleExchange crypto now d conn mgr) then 1 else 0)"
proof
  fix c
  let ?m = "rvzHandleExchange crypto now d conn mgr"
  from assms have a: "rvzReplies c mgr \<le> (if c \<in> rvzRepliedConns mgr then 1 else 0)" by blast
  from rvzHandleExchange_cases [of crypto now d conn mgr]
  consider
    (same) "sent ?m = sent mgr" "rvzRepliedConns mgr \<subseteq> rvzRepliedConns ?m"
  | (reply) w where "conn \<notin> rvzRepliedConns mgr"
      "rvzRepliedConns ?m = insert conn (rvzRepliedConns mgr)"
      "isRvzExchange w" "sent ?m = sent mgr @ [(conn, w)]"
    by auto
  then show "rvzReplies c ?m \<le> (if c \<in> rvzRepliedConns ?m then 1 else 0)"
  proof cases
    case same
    from rvzReplies_same [OF same(1)] a same(2) show ?thesis
      by (auto split: if_splits)
  next
    case reply
    from rvzReplies_append [OF reply(4) reply(3), of c] a reply(1,2) show ?thesis
      by (auto split: if_splits)
  qed
qed

lemma rvzRun_inv:
  "\<forall>c. rvzReplies c mgr \<le> (if c \<in> rvzRepliedConns mgr then 1 else 0) \<Longrightarrow>
   \<forall>c. rvzReplies c (rvzRun crypto ds mgr)
        \<le> (if c \<in> rvzRepliedConns (rvzRun crypto ds mgr) then 1 else 0)"
proof (induction ds arbitrary: mgr)
  case Nil
  then show ?case by simp
next
  case (Cons x ds)
  obtain now d conn where x: "x = (now, d, conn)" by (cases x)
  from rvzHandleExchange_inv [OF Cons.prems, of crypto now d conn]
  show ?case unfolding x by (simp add: Cons.IH)
qed

text \<open>
  Claim C9. Once a connection is in the replied set, \<open>rvzHandleExchange\<close> on it sends
  nothing and leaves it in the set; whenever the handler does send, the connection was not
  yet in the set and is put there; and over any run of deliveries, on any connections,
  that starts with at most one reply on each replied connection and none on the others,
  every connection carries at most one \<open>rvz-exchange\<close> reply.
\<close>

theorem rvzHandleExchange_replies_once:
  "(conn \<in> rvzRepliedConns mgr \<longrightarrow>
      sent (rvzHandleExchange crypto now d conn mgr) = sent mgr \<and>
      conn \<in> rvzRepliedConns (rvzHandleExchange crypto now d conn mgr)) \<and>
   (sent (rvzHandleExchange crypto now d conn mgr) \<noteq> sent mgr \<longrightarrow>
      conn \<notin> rvzRepliedConns mgr \<and>
      conn \<in> rvzRepliedConns (rvzHandleExchange crypto now d conn mgr) \<and>
      rvzReplies conn (rvzHandleExchange crypto now d conn mgr) = rvzReplies conn mgr + 1) \<and>
   ((\<forall>c. rvzReplies c mgr \<le> (if c \<in> rvzRepliedConns mgr then 1 else 0)) \<longrightarrow>
      (\<forall>c. rvzReplies c (rvzRun crypto ds mgr) \<le> 1))"
proof (intro conjI impI)
  assume "conn \<in> rvzRepliedConns mgr"
  with rvzHandleExchange_cases [of crypto now d conn mgr]
  show "sent (rvzHandleExchange crypto now d conn mgr) = sent mgr"
    and "conn \<in> rvzRepliedConns (rvzHandleExchange crypto now d conn mgr)"
    by auto
next
  assume n: "sent (rvzHandleExchange crypto now d conn mgr) \<noteq> sent mgr"
  with rvzHandleExchange_cases [of crypto now d conn mgr]
  obtain w where w: "conn \<notin> rvzRepliedConns mgr"
    "rvzRepliedConns (rvzHandleExchange crypto now d conn mgr) = insert conn (rvzRepliedConns mgr)"
    "isRvzExchange w" "sent (rvzHandleExchange crypto now d conn mgr) = sent mgr @ [(conn, w)]"
    by auto
  from w(1) show "conn \<notin> rvzRepliedConns mgr" .
  from w(2) show "conn \<in> rvzRepliedConns (rvzHandleExchange crypto now d conn mgr)" by simp
  from rvzReplies_append [OF w(4) w(3), of conn]
  show "rvzReplies conn (rvzHandleExchange crypto now d conn mgr) = rvzReplies conn mgr + 1"
    by simp
next
  assume "\<forall>c. rvzReplies c mgr \<le> (if c \<in> rvzRepliedConns mgr then 1 else 0)"
  from rvzRun_inv [OF this, of crypto ds]
  show "\<forall>c. rvzReplies c (rvzRun crypto ds mgr) \<le> 1"
    by (metis le_zero_eq zero_le_one)
qed

lemma ex_first_reply:
  "sent (rvzHandleExchange ex_crypto ''1701'' ex_exchange 3 ex_rvz_manager) =
     [(3, Rvz_exchange ''pid-me'' ''Me'' ''KA'' ''1701'' ''sig:1701'')]"
  by (simp add: rvzHandleExchange_def rvzVerified_def rvzContactKey_def rvzUpdateContact_def
      rvzReplyOnce_def rvzReconnect_def findContactByPublicKey_def send_def truthy_def orElse_def
      ex_crypto_def ex_exchange_def ex_rvz_manager_def newManager_def Let_def)

text \<open>
  The theorem at the example: the first exchange on connection 3 is answered, the second
  is not, and a run of three exchanges leaves one reply on the connection.
\<close>

theorem rvzHandleExchange_replies_once_witness:
  "sent (rvzHandleExchange ex_crypto ''1701'' ex_exchange 3 ex_rvz_manager) \<noteq> sent ex_rvz_manager \<and>
   3 \<in> rvzRepliedConns (rvzHandleExchange ex_crypto ''1701'' ex_exchange 3 ex_rvz_manager) \<and>
   sent (rvzHandleExchange ex_crypto ''1702'' ex_exchange 3
          (rvzHandleExchange ex_crypto ''1701'' ex_exchange 3 ex_rvz_manager)) =
     [(3, Rvz_exchange ''pid-me'' ''Me'' ''KA'' ''1701'' ''sig:1701'')] \<and>
   rvzReplies 3 (rvzRun ex_crypto
      [(''1701'', ex_exchange, 3), (''1702'', ex_exchange, 3), (''1703'', ex_exchange, 3)]
      ex_rvz_manager) \<le> 1"
proof -
  let ?first = "rvzHandleExchange ex_crypto ''1701'' ex_exchange 3 ex_rvz_manager"
  have s0: "sent ex_rvz_manager = []"
    by (simp add: ex_rvz_manager_def newManager_def)
  then have n: "sent ?first \<noteq> sent ex_rvz_manager"
    using ex_first_reply by simp
  have inv: "\<forall>c. rvzReplies c ex_rvz_manager \<le> (if c \<in> rvzRepliedConns ex_rvz_manager then 1 else 0)"
    using s0 by (simp add: rvzReplies_def)
  note t1 = rvzHandleExchange_replies_once [where conn = 3 and mgr = ex_rvz_manager
      and crypto = ex_crypto and now = "''1701''" and d = ex_exchange
      and ds = "[(''1701'', ex_exchange, 3), (''1702'', ex_exchange, 3), (''1703'', ex_exchange, 3)]"]
  from t1 n have r: "3 \<in> rvzRepliedConns ?first" by blast
  note t2 = rvzHandleExchange_replies_once [where conn = 3 and mgr = ?first
      and crypto = ex_crypto and now = "''1702''" and d = ex_exchange and ds = "[]"]
  from t2 r have "sent (rvzHandleExchange ex_crypto ''1702'' ex_exchange 3 ?first) = sent ?first"
    by blast
  moreover from t1 inv have "rvzReplies 3 (rvzRun ex_crypto
      [(''1701'', ex_exchange, 3), (''1702'', ex_exchange, 3), (''1703'', ex_exchange, 3)]
      ex_rvz_manager) \<le> 1" by blast
  ultimately show ?thesis using n r ex_first_reply by simp
qed

subsection \<open>The group backfill\<close>

lemma info_fold_sent:
  "sent (foldl (\<lambda>m r. case pi_conn r of
                         None \<Rightarrow> m
                       | Some c \<Rightarrow> if pi_isMe r then m else send c w m) mgr rs) =
   sent mgr @ concat (map (\<lambda>r. case pi_conn r of
                                 None \<Rightarrow> []
                               | Some c \<Rightarrow> if pi_isMe r then [] else [(c, w)]) rs)"
  by (induction rs arbitrary: mgr) (simp_all add: send_def split: option.splits)

lemma updateGroup_frame:
  "sent (updateGroup groupId f mgr) = sent mgr"
  "openConns (updateGroup groupId f mgr) = openConns mgr"
  "privateKey (updateGroup groupId f mgr) = privateKey mgr"
  "map_of (groups (updateGroup groupId f mgr)) groupId = map_option f (map_of (groups mgr) groupId)"
  by (simp_all add: updateGroup_def map_of_map_entry split: option.splits)

lemma send_frame:
  "sent (send c w mgr) = sent mgr @ [(c, w)]"
  "openConns (send c w mgr) = openConns mgr"
  "privateKey (send c w mgr) = privateKey mgr"
  "groups (send c w mgr) = groups mgr"
  by (simp_all add: send_def)

lemma groupBackfill_frame:
  assumes "map_of (groups mgr) groupId = Some state"
  shows "sent (groupBackfill groupId conn sinceTs mgr) =
           sent mgr @ (if filter (\<lambda>m. sinceTs < gm_ts m) (g_messages state) \<noteq> [] \<and> conn \<in> openConns mgr
                       then [(conn, Group_backfill (filter (\<lambda>m. sinceTs < gm_ts m) (g_messages state)))]
                       else [])"
    and "openConns (groupBackfill groupId conn sinceTs mgr) = openConns mgr"
    and "privateKey (groupBackfill groupId conn sinceTs mgr) = privateKey mgr"
  using assms by (simp_all add: groupBackfill_def send_def Let_def)

text \<open>What the \<open>group-checkin\<close> branch sends, in order.\<close>

lemma groupHandleRouterData_checkin_sent:
  assumes g: "map_of (groups mgr) groupId = Some state"
  shows "sent (groupHandleRouterData_checkin crypto now groupId d conn mgr) =
     sent mgr @
     (if conn \<in> openConns mgr
      then (conn, Group_info_update (checkinMembers now d (g_info state))) #
           (if filter (\<lambda>m. (case ci_sinceTs d of None \<Rightarrow> 0 | Some t \<Rightarrow> t) < gm_ts m) (g_messages state) = []
            then []
            else [(conn, Group_backfill
                    (filter (\<lambda>m. (case ci_sinceTs d of None \<Rightarrow> 0 | Some t \<Rightarrow> t) < gm_ts m)
                       (g_messages state)))])
      else []) @
     (case (g_groupKey state, ci_publicKey d) of
        (Some k, Some pk) \<Rightarrow>
          if pk \<noteq> [] \<and> conn \<in> openConns mgr
          then (case encryptGroupKeyForPeer crypto (privateKey mgr) pk k of
                  None \<Rightarrow> []
                | Some (iv, ct) \<Rightarrow> [(conn, Group_key_distribute iv ct)])
          else []
      | _ \<Rightarrow> []) @
     concat (map (\<lambda>r. case pi_conn r of
                        None \<Rightarrow> []
                      | Some c \<Rightarrow> if pi_isMe r then []
                                  else [(c, Group_info_update (checkinMembers now d (g_info state)))])
               (map snd (g_registry state)))"
proof -
  define info where "info = checkinMembers now d (g_info state)"
  define since where "since = (case ci_sinceTs d of None \<Rightarrow> 0 | Some t \<Rightarrow> t)"
  define mgr1 where "mgr1 = updateGroup groupId (\<lambda>st. st\<lparr>g_info := info\<rparr>) mgr"
  define mgr2 where "mgr2 = (if conn \<in> openConns mgr1
      then groupBackfill groupId conn since (send conn (Group_info_update info) mgr1)
      else mgr1)"
  define mgr3 where "mgr3 = (case (g_groupKey state, ci_publicKey d) of
        (Some k, Some pk) \<Rightarrow>
          if pk \<noteq> [] \<and> conn \<in> openConns mgr2
          then (case encryptGroupKeyForPeer crypto (privateKey mgr2) pk k of
                  None \<Rightarrow> mgr2
                | Some (iv, ct) \<Rightarrow> send conn (Group_key_distribute iv ct) mgr2)
          else mgr2
      | _ \<Rightarrow> mgr2)"
  have m1: "sent mgr1 = sent mgr" "openConns mgr1 = openConns mgr" "privateKey mgr1 = privateKey mgr"
    "map_of (groups mgr1) groupId = Some (state\<lparr>g_info := info\<rparr>)"
    using g by (simp_all add: mgr1_def updateGroup_frame)
  have s1: "map_of (groups (send conn (Group_info_update info) mgr1)) groupId =
      Some (state\<lparr>g_info := info\<rparr>)"
    using m1 by (simp add: send_frame)
  have m2: "sent mgr2 = sent mgr @
      (if conn \<in> openConns mgr
       then (conn, Group_info_update info) #
            (if filter (\<lambda>m. since < gm_ts m) (g_messages state) = [] then []
             else [(conn, Group_backfill (filter (\<lambda>m. since < gm_ts m) (g_messages state)))])
       else [])"
    "openConns mgr2 = openConns mgr" "privateKey mgr2 = privateKey mgr"
    using m1 by (simp_all add: mgr2_def groupBackfill_frame [OF s1] send_frame)
  have m3: "sent mgr3 = sent mgr2 @
      (case (g_groupKey state, ci_publicKey d) of
        (Some k, Some pk) \<Rightarrow>
          if pk \<noteq> [] \<and> conn \<in> openConns mgr
          then (case encryptGroupKeyForPeer crypto (privateKey mgr) pk k of
                  None \<Rightarrow> []
                | Some (iv, ct) \<Rightarrow> [(conn, Group_key_distribute iv ct)])
          else []
      | _ \<Rightarrow> [])"
    by (simp add: mgr3_def m2 send_frame split: option.splits)
  have "groupHandleRouterData_checkin crypto now groupId d conn mgr =
      (foldl (\<lambda>m r. case pi_conn r of
                       None \<Rightarrow> m
                     | Some c \<Rightarrow> if pi_isMe r then m else send c (Group_info_update info) m)
         mgr3 (map snd (g_registry state)))
      \<lparr>events := events (foldl (\<lambda>m r. case pi_conn r of
                       None \<Rightarrow> m
                     | Some c \<Rightarrow> if pi_isMe r then m else send c (Group_info_update info) m)
         mgr3 (map snd (g_registry state))) @ [Event_group_update]\<rparr>"
    unfolding mgr3_def mgr2_def mgr1_def info_def since_def using g
    by (simp add: groupHandleRouterData_checkin_def Let_def)
  then have "sent (groupHandleRouterData_checkin crypto now groupId d conn mgr) =
      sent mgr3 @ concat (map (\<lambda>r. case pi_conn r of
                        None \<Rightarrow> []
                      | Some c \<Rightarrow> if pi_isMe r then [] else [(c, Group_info_update info)])
               (map snd (g_registry state)))"
    by (simp add: info_fold_sent)
  then show ?thesis
    unfolding m3 m2 info_def since_def by simp
qed

lemma info_concat_no_backfill:
  "filter (isBackfill \<circ> snd)
     (concat (map (\<lambda>r. case pi_conn r of
                        None \<Rightarrow> []
                      | Some c \<Rightarrow> if pi_isMe r then [] else [(c, Group_info_update info)]) rs)) = []"
  by (induction rs) (simp_all split: option.splits)

lemma key_no_backfill:
  "filter (isBackfill \<circ> snd)
     (if b then (case x of None \<Rightarrow> [] | Some (iv, ct) \<Rightarrow> [(conn, Group_key_distribute iv ct)])
      else []) = []"
  by (cases b; cases x; simp add: split_def)

text \<open>
  Claim C8. For a group the router holds and an open connection: when some stored message
  has \<open>ts > sinceTs\<close>, \<open>groupBackfill\<close> sends one \<open>group-backfill\<close> on the connection
  whose messages are the stored messages with \<open>ts > sinceTs\<close>, in stored order, and
  nothing else; when none has, it sends nothing and changes nothing. In answer to a
  \<open>group-checkin\<close> with \<open>sinceTs\<close> the router sends, in this order: on the member's
  connection, when it is open, the updated group info and then that backfill; the group
  key for the member, when there is one to distribute; and the updated group info to every
  connected registry entry other than its own. So among all it sends there is exactly that
  one \<open>group-backfill\<close>, and none when no stored message is newer or the connection is
  not open. A check-in without \<open>sinceTs\<close> is answered as one with \<open>sinceTs = 0\<close>.
\<close>

theorem groupBackfill_exact:
  "(map_of (groups mgr) groupId = Some state \<and> conn \<in> openConns mgr \<longrightarrow>
     (filter (\<lambda>m. sinceTs < gm_ts m) (g_messages state) \<noteq> [] \<longrightarrow>
        groupBackfill groupId conn sinceTs mgr =
          send conn (Group_backfill (filter (\<lambda>m. sinceTs < gm_ts m) (g_messages state))) mgr \<and>
        sent (groupBackfill groupId conn sinceTs mgr) =
          sent mgr @ [(conn, Group_backfill (filter (\<lambda>m. sinceTs < gm_ts m) (g_messages state)))]) \<and>
     (filter (\<lambda>m. sinceTs < gm_ts m) (g_messages state) = [] \<longrightarrow>
        groupBackfill groupId conn sinceTs mgr = mgr) \<and>
     (\<forall>m. m \<in> set (filter (\<lambda>m. sinceTs < gm_ts m) (g_messages state)) \<longleftrightarrow>
          m \<in> set (g_messages state) \<and> sinceTs < gm_ts m)) \<and>
   (map_of (groups mgr) groupId = Some state \<longrightarrow>
     sent (groupHandleRouterData_checkin crypto now groupId (d\<lparr>ci_sinceTs := Some sinceTs\<rparr>) conn mgr) =
       sent mgr @
       (if conn \<in> openConns mgr
        then (conn, Group_info_update (checkinMembers now d (g_info state))) #
             (if filter (\<lambda>m. sinceTs < gm_ts m) (g_messages state) = [] then []
              else [(conn, Group_backfill (filter (\<lambda>m. sinceTs < gm_ts m) (g_messages state)))])
        else []) @
       (case (g_groupKey state, ci_publicKey d) of
          (Some k, Some pk) \<Rightarrow>
            if pk \<noteq> [] \<and> conn \<in> openConns mgr
            then (case encryptGroupKeyForPeer crypto (privateKey mgr) pk k of
                    None \<Rightarrow> []
                  | Some (iv, ct) \<Rightarrow> [(conn, Group_key_distribute iv ct)])
            else []
        | _ \<Rightarrow> []) @
       concat (map (\<lambda>r. case pi_conn r of
                          None \<Rightarrow> []
                        | Some c \<Rightarrow> if pi_isMe r then []
                                    else [(c, Group_info_update (checkinMembers now d (g_info state)))])
                 (map snd (g_registry state))) \<and>
     filter (isBackfill \<circ> snd)
       (drop (length (sent mgr))
          (sent (groupHandleRouterData_checkin crypto now groupId (d\<lparr>ci_sinceTs := Some sinceTs\<rparr>) conn mgr))) =
       (if conn \<in> openConns mgr \<and> filter (\<lambda>m. sinceTs < gm_ts m) (g_messages state) \<noteq> []
        then [(conn, Group_backfill (filter (\<lambda>m. sinceTs < gm_ts m) (g_messages state)))]
        else []) \<and>
     groupHandleRouterData_checkin crypto now groupId (d\<lparr>ci_sinceTs := None\<rparr>) conn mgr =
       groupHandleRouterData_checkin crypto now groupId (d\<lparr>ci_sinceTs := Some 0\<rparr>) conn mgr)"
proof (intro conjI impI)
  assume g: "map_of (groups mgr) groupId = Some state"
  have cm: "checkinMembers now (d\<lparr>ci_sinceTs := Some sinceTs\<rparr>) (g_info state) =
      checkinMembers now d (g_info state)"
    by (simp add: checkinMembers_def cong: if_cong option.case_cong)
  note s = groupHandleRouterData_checkin_sent [OF g, of crypto now "d\<lparr>ci_sinceTs := Some sinceTs\<rparr>" conn]
  from s show e: "sent (groupHandleRouterData_checkin crypto now groupId (d\<lparr>ci_sinceTs := Some sinceTs\<rparr>) conn mgr) =
       sent mgr @
       (if conn \<in> openConns mgr
        then (conn, Group_info_update (checkinMembers now d (g_info state))) #
             (if filter (\<lambda>m. sinceTs < gm_ts m) (g_messages state) = [] then []
              else [(conn, Group_backfill (filter (\<lambda>m. sinceTs < gm_ts m) (g_messages state)))])
        else []) @
       (case (g_groupKey state, ci_publicKey d) of
          (Some k, Some pk) \<Rightarrow>
            if pk \<noteq> [] \<and> conn \<in> openConns mgr
            then (case encryptGroupKeyForPeer crypto (privateKey mgr) pk k of
                    None \<Rightarrow> []
                  | Some (iv, ct) \<Rightarrow> [(conn, Group_key_distribute iv ct)])
            else []
        | _ \<Rightarrow> []) @
       concat (map (\<lambda>r. case pi_conn r of
                          None \<Rightarrow> []
                        | Some c \<Rightarrow> if pi_isMe r then []
                                    else [(c, Group_info_update (checkinMembers now d (g_info state)))])
                 (map snd (g_registry state)))"
    unfolding cm by simp
  define K where "K = (case (g_groupKey state, ci_publicKey d) of
          (Some k, Some pk) \<Rightarrow>
            if pk \<noteq> [] \<and> conn \<in> openConns mgr
            then (case encryptGroupKeyForPeer crypto (privateKey mgr) pk k of
                    None \<Rightarrow> []
                  | Some (iv, ct) \<Rightarrow> [(conn, Group_key_distribute iv ct)])
            else []
        | _ \<Rightarrow> [])"
  have k: "filter (isBackfill \<circ> snd) K = []"
    unfolding K_def
    by (cases "g_groupKey state"; cases "ci_publicKey d";
        simp only: prod.case option.case key_no_backfill filter.simps)
  show "filter (isBackfill \<circ> snd)
       (drop (length (sent mgr))
          (sent (groupHandleRouterData_checkin crypto now groupId (d\<lparr>ci_sinceTs := Some sinceTs\<rparr>) conn mgr))) =
       (if conn \<in> openConns mgr \<and> filter (\<lambda>m. sinceTs < gm_ts m) (g_messages state) \<noteq> []
        then [(conn, Group_backfill (filter (\<lambda>m. sinceTs < gm_ts m) (g_messages state)))]
        else [])"
    unfolding e K_def [symmetric] by (simp add: k info_concat_no_backfill)
  show "groupHandleRouterData_checkin crypto now groupId (d\<lparr>ci_sinceTs := None\<rparr>) conn mgr =
       groupHandleRouterData_checkin crypto now groupId (d\<lparr>ci_sinceTs := Some 0\<rparr>) conn mgr"
    by (simp add: groupHandleRouterData_checkin_def checkinMembers_def
        cong: if_cong option.case_cong)
qed (simp_all add: groupBackfill_def send_def Let_def)

lemma ex_backfill:
  "sent (groupBackfill ''g1'' 4 15 (ex_group_manager None)) =
     [(4, Group_backfill [ex_gmsg ''b'' 20, ex_gmsg ''c'' 30])] \<and>
   sent (groupBackfill ''g1'' 4 30 (ex_group_manager None)) = []"
  by (simp add: groupBackfill_def send_def Let_def ex_group_manager_def ex_group_def ex_gmsg_def
      newManager_def)

lemma ex_router:
  "map_of (groups ex_router_manager) ''g1'' = Some ex_router_group"
  "4 \<in> openConns ex_router_manager"
  "sent ex_router_manager = []"
  "privateKey ex_router_manager = Some 1"
  "g_groupKey ex_router_group = Some 9"
  "g_messages ex_router_group = [ex_gmsg ''a'' 10, ex_gmsg ''b'' 20, ex_gmsg ''c'' 30]"
  "g_info ex_router_group = ex_info"
  "map snd (g_registry ex_router_group) = map snd ex_group_registry"
  by (simp_all add: ex_router_manager_def ex_router_group_def ex_group_def newManager_def)

lemma ex_checkin_info:
  "checkinMembers 2000 ex_checkin ex_info = ex_info_bob"
  by (simp add: checkinMembers_def ex_checkin_def ex_info_def ex_info_bob_def orElse_def)

text \<open>
  The theorem at the example group: a member that checks in with \<open>sinceTs = 15\<close> gets the
  messages of times 20 and 30; one that checks in with \<open>sinceTs = 30\<close> gets no backfill.
  At the example router, Bob's check-in with \<open>sinceTs = 15\<close> is answered with the group
  info, the backfill of the messages of times 20 and 30 and the group key on his
  connection, and the group info goes to Bob and Carol.
\<close>

theorem groupBackfill_exact_witness:
  "map_of (groups (ex_group_manager None)) ''g1'' = Some (ex_group None) \<and>
   4 \<in> openConns (ex_group_manager None) \<and>
   filter (\<lambda>m. 15 < gm_ts m) (g_messages (ex_group None)) = [ex_gmsg ''b'' 20, ex_gmsg ''c'' 30] \<and>
   sent (groupBackfill ''g1'' 4 15 (ex_group_manager None)) =
     [(4, Group_backfill [ex_gmsg ''b'' 20, ex_gmsg ''c'' 30])] \<and>
   filter (\<lambda>m. 30 < gm_ts m) (g_messages (ex_group None)) = [] \<and>
   groupBackfill ''g1'' 4 30 (ex_group_manager None) = ex_group_manager None \<and>
   map_of (groups ex_router_manager) ''g1'' = Some ex_router_group \<and>
   sent (groupHandleRouterData_checkin ex_crypto 2000 ''g1'' ex_checkin 4 ex_router_manager) =
     [(4, Group_info_update ex_info_bob),
      (4, Group_backfill [ex_gmsg ''b'' 20, ex_gmsg ''c'' 30]),
      (4, Group_key_distribute ''giv'' ''pk-bob''),
      (4, Group_info_update ex_info_bob),
      (5, Group_info_update ex_info_bob)]"
proof -
  have g: "map_of (groups (ex_group_manager None)) ''g1'' = Some (ex_group None)"
    "4 \<in> openConns (ex_group_manager None)"
    by (simp_all add: ex_group_manager_def newManager_def)
  have f: "filter (\<lambda>m. 15 < gm_ts m) (g_messages (ex_group None)) = [ex_gmsg ''b'' 20, ex_gmsg ''c'' 30]"
    "filter (\<lambda>m. 30 < gm_ts m) (g_messages (ex_group None)) = []"
    by (simp_all add: ex_group_def ex_gmsg_def)
  from g f(2) groupBackfill_exact [of "ex_group_manager None" "''g1''" "ex_group None" 4 30]
  have a: "groupBackfill ''g1'' 4 30 (ex_group_manager None) = ex_group_manager None"
    by blast
  have d: "ex_checkin\<lparr>ci_sinceTs := Some 15\<rparr> = ex_checkin" "ci_publicKey ex_checkin = Some ''pk-bob''"
    by (simp_all add: ex_checkin_def)
  have fr: "filter (\<lambda>m. 15 < gm_ts m) [ex_gmsg ''a'' 10, ex_gmsg ''b'' 20, ex_gmsg ''c'' 30] =
      [ex_gmsg ''b'' 20, ex_gmsg ''c'' 30]"
    by (simp add: ex_gmsg_def)
  have k: "encryptGroupKeyForPeer ex_crypto (Some p) ''pk-bob'' 9 = Some (''giv'', ''pk-bob'')" for p
    by (simp add: ex_crypto_def)
  have r: "concat (map (\<lambda>r. case pi_conn r of
                          None \<Rightarrow> []
                        | Some c \<Rightarrow> if pi_isMe r then [] else [(c, Group_info_update ex_info_bob)])
                 (map snd ex_group_registry)) =
      [(4, Group_info_update ex_info_bob), (5, Group_info_update ex_info_bob)]"
    by (simp add: ex_group_registry_def)
  from ex_router(1)
    groupBackfill_exact [of ex_router_manager "''g1''" ex_router_group 4 15 ex_crypto 2000 ex_checkin]
  have "sent (groupHandleRouterData_checkin ex_crypto 2000 ''g1'' (ex_checkin\<lparr>ci_sinceTs := Some 15\<rparr>) 4
          ex_router_manager) =
       sent ex_router_manager @
       (if 4 \<in> openConns ex_router_manager
        then (4, Group_info_update (checkinMembers 2000 ex_checkin (g_info ex_router_group))) #
             (if filter (\<lambda>m. 15 < gm_ts m) (g_messages ex_router_group) = [] then []
              else [(4, Group_backfill (filter (\<lambda>m. 15 < gm_ts m) (g_messages ex_router_group)))])
        else []) @
       (case (g_groupKey ex_router_group, ci_publicKey ex_checkin) of
          (Some k, Some pk) \<Rightarrow>
            if pk \<noteq> [] \<and> 4 \<in> openConns ex_router_manager
            then (case encryptGroupKeyForPeer ex_crypto (privateKey ex_router_manager) pk k of
                    None \<Rightarrow> []
                  | Some (iv, ct) \<Rightarrow> [(4, Group_key_distribute iv ct)])
            else []
        | _ \<Rightarrow> []) @
       concat (map (\<lambda>r. case pi_conn r of
                          None \<Rightarrow> []
                        | Some c \<Rightarrow> if pi_isMe r then []
                                    else [(c, Group_info_update (checkinMembers 2000 ex_checkin (g_info ex_router_group)))])
                 (map snd (g_registry ex_router_group)))"
    by blast
  then have b: "sent (groupHandleRouterData_checkin ex_crypto 2000 ''g1'' ex_checkin 4 ex_router_manager) =
     [(4, Group_info_update ex_info_bob),
      (4, Group_backfill [ex_gmsg ''b'' 20, ex_gmsg ''c'' 30]),
      (4, Group_key_distribute ''giv'' ''pk-bob''),
      (4, Group_info_update ex_info_bob),
      (5, Group_info_update ex_info_bob)]"
    unfolding d ex_router ex_checkin_info fr r by (simp add: k ex_router(2))
  from g f a b ex_backfill ex_router(1) show ?thesis by simp
qed

subsection \<open>Plaintext fallback\<close>


























subsection \<open>Duplicate deliveries\<close>

lemma groupDecryptLocal_id: "gm_id (groupDecryptLocal crypto state msg) = gm_id msg"
  by (simp add: groupDecryptLocal_def split: option.splits bool.splits)

text \<open>
  A \<open>group-relay\<close> delivered twice leaves the state of the first delivery: the member's
  handler looks the message id up before it stores.
\<close>

lemma groupHandleMemberData_relay_idempotent:
  "groupHandleMemberData_relay crypto groupId msg conn
     (groupHandleMemberData_relay crypto groupId msg conn mgr) =
   groupHandleMemberData_relay crypto groupId msg conn mgr"
proof (cases "map_of (groups mgr) groupId")
  case None
  then show ?thesis by (simp add: groupHandleMemberData_relay_def)
next
  case (Some state)
  show ?thesis
  proof (cases "gm_senderFP msg = pubkeyFingerprint mgr \<or> (\<exists>m \<in> set (g_messages state). gm_id m = gm_id msg)")
    case True
    with Some have "groupHandleMemberData_relay crypto groupId msg conn mgr = mgr"
      by (auto simp: groupHandleMemberData_relay_def)
    then show ?thesis by simp
  next
    case False
    let ?r = "groupHandleMemberData_relay crypto groupId msg conn mgr"
    let ?local = "groupDecryptLocal crypto state msg"
    have g: "groups ?r = AList.map_entry groupId (\<lambda>st. st\<lparr>g_messages := g_messages st @ [?local]\<rparr>) (groups mgr)"
      using Some False
      by (simp add: groupHandleMemberData_relay_def Let_def updateGroup_def send_def
          split: option.splits)
    have "map_of (groups ?r) groupId = Some (state\<lparr>g_messages := g_messages state @ [?local]\<rparr>)"
      using Some by (simp add: g map_of_map_entry)
    moreover have "\<exists>m \<in> set (g_messages (state\<lparr>g_messages := g_messages state @ [?local]\<rparr>)). gm_id m = gm_id msg"
      by (simp add: groupDecryptLocal_id)
    ultimately show ?thesis
      by (simp add: groupHandleMemberData_relay_def [of crypto groupId msg conn ?r])
  qed
qed

text \<open>
  Claim C2 fails on the direct path. The branch for \<open>message\<close> of \<open>handlePersistentData\<close>
  pushes the message without looking its id up: the payload \<open>m1\<close> delivered twice over
  connection 7 is stored twice and acknowledged twice.
\<close>

theorem duplicate_direct_message_stored_twice:
  "map (map m_id \<circ> snd)
     (chats (handlePersistentData_message ex_crypto ''u1'' ''fp02'' 7 ex_incoming ex_chat_manager)) =
     [[''m1'']] \<and>
   map (map m_id \<circ> snd)
     (chats (handlePersistentData_message ex_crypto ''u2'' ''fp02'' 7 ex_incoming
        (handlePersistentData_message ex_crypto ''u1'' ''fp02'' 7 ex_incoming ex_chat_manager))) =
     [[''m1'', ''m1'']] \<and>
   sent (handlePersistentData_message ex_crypto ''u2'' ''fp02'' 7 ex_incoming
        (handlePersistentData_message ex_crypto ''u1'' ''fp02'' 7 ex_incoming ex_chat_manager)) =
     [(7, Message_ack (Some ''m1'')), (7, Message_ack (Some ''m1''))] \<and>
   handlePersistentData_message ex_crypto ''u2'' ''fp02'' 7 ex_incoming
        (handlePersistentData_message ex_crypto ''u1'' ''fp02'' 7 ex_incoming ex_chat_manager) \<noteq>
     handlePersistentData_message ex_crypto ''u1'' ''fp02'' 7 ex_incoming ex_chat_manager"
proof -
  let ?once = "handlePersistentData_message ex_crypto ''u1'' ''fp02'' 7 ex_incoming ex_chat_manager"
  let ?twice = "handlePersistentData_message ex_crypto ''u2'' ''fp02'' 7 ex_incoming ?once"
  have a: "map (map m_id \<circ> snd) (chats ?once) = [[''m1'']]"
    by (simp add: handlePersistentData_message_def incomingContent_def pushChat_def send_def
        orElse_def Let_def ex_incoming_def ex_chat_manager_def ex_contact_def newManager_def)
  have b: "map (map m_id \<circ> snd) (chats ?twice) = [[''m1'', ''m1'']]"
    by (simp add: handlePersistentData_message_def incomingContent_def pushChat_def send_def
        orElse_def Let_def ex_incoming_def ex_chat_manager_def ex_contact_def newManager_def)
  have c: "sent ?twice = [(7, Message_ack (Some ''m1'')), (7, Message_ack (Some ''m1''))]"
    by (simp add: handlePersistentData_message_def incomingContent_def pushChat_def send_def
        orElse_def Let_def ex_incoming_def ex_chat_manager_def ex_contact_def newManager_def)
  from a b have "?twice \<noteq> ?once" by auto
  with a b c show ?thesis by blast
qed

subsection \<open>The unacked reset\<close>

text \<open>
  Claim C4 fails on the code. \<open>resetUnackedMessages\<close> takes no time and compares no
  timestamp: the message \<open>m1\<close>, sent and not yet acknowledged, goes back to \<open>waiting\<close>
  however recently it was sent, and the flush of the same timer callback sends it again.
\<close>

theorem resetUnackedMessages_ignores_age:
  "chats ex_just_sent = [(''fp02'', [ex_out\<lparr>m_status := Some Sent\<rparr>])] \<and>
   chats (resetUnackedMessages ex_just_sent) = [(''fp02'', [ex_out\<lparr>m_status := Some Waiting\<rparr>])] \<and>
   chats (resetUnackedMessages (ex_just_sent\<lparr>chats := [(''fp02'', [ex_out\<lparr>m_status := Some Sent, m_ts := t\<rparr>])]\<rparr>)) =
     [(''fp02'', [ex_out\<lparr>m_status := Some Waiting, m_ts := t\<rparr>])] \<and>
   sent (checkinTimerAlive ex_crypto ex_just_sent) =
     [(7, Message_e2e ''iv'' ''terces'' ''sig:terces'' 1000 ''m1'')]"
  by (simp add: resetUnackedMessages_def checkinTimerAlive_def flushMessageQueue_def
      sendEncryptedMessage_def getOrDeriveSharedKey_def send_def orElse_def Let_def
      ex_just_sent_def ex_chat_manager_def ex_contact_def ex_out_def ex_crypto_def newManager_def)

end
